theory Spec2Isabelle
  imports Complex_Main "HOL-Library.Word"
begin

section \<open>The MMAL interface as the driver sees it\<close>

text \<open>
  The driver in \<^verbatim>\<open>indi-rpicam/mmalcamera.cpp\<close> talks to the camera through the
  MMAL library. Every library function it calls returns a \<^verbatim>\<open>MMAL_STATUS_T\<close>;
  \<^verbatim>\<open>MMAL_SUCCESS\<close> is the zero of that enumeration, so it is the only status that
  converts to \<^verbatim>\<open>false\<close>.
\<close>

datatype MMAL_STATUS_T =
    MMAL_SUCCESS | MMAL_ENOMEM | MMAL_ENOSPC | MMAL_EINVAL | MMAL_ENOSYS | MMAL_ENOENT
  | MMAL_ENXIO | MMAL_EIO | MMAL_ESPIPE | MMAL_ECORRUPT | MMAL_ENOTREADY | MMAL_ECONFIG
  | MMAL_EISCONN | MMAL_ENOTCONN | MMAL_EAGAIN | MMAL_EFAULT

text \<open>A rational is a pair of 32-bit signed integers. No arithmetic is done on the two
  fields, so they are kept as integers.\<close>

record MMAL_RATIONAL_T =
  num :: int
  den :: int

record MMAL_RECT_T =
  rect_x :: int
  rect_y :: int
  rect_width :: int
  rect_height :: int

text \<open>The three output ports of the camera component, and the ports the driver reaches:
  \<^verbatim>\<open>component->control\<close>, \<^verbatim>\<open>component->output[i]\<close>, \<^verbatim>\<open>component->port[i]\<close> and the
  control port of the transient camera-info component.\<close>

datatype camera_port = MMAL_CAMERA_PREVIEW_PORT | MMAL_CAMERA_VIDEO_PORT | MMAL_CAMERA_CAPTURE_PORT

datatype port_handle =
    component_control
  | component_output camera_port
  | component_port camera_port
  | camera_info_control

datatype component_handle = component | camera_info

datatype component_name = MMAL_COMPONENT_DEFAULT_CAMERA | MMAL_COMPONENT_DEFAULT_CAMERA_INFO

datatype parameter_id =
    MMAL_PARAMETER_CAMERA_NUM | MMAL_PARAMETER_CAMERA_CUSTOM_SENSOR_CONFIG
  | MMAL_PARAMETER_CAMERA_CONFIG | MMAL_PARAMETER_FPS_RANGE | MMAL_PARAMETER_CAPTURE
  | MMAL_PARAMETER_AWB_MODE | MMAL_PARAMETER_SATURATION | MMAL_PARAMETER_DIGITAL_GAIN
  | MMAL_PARAMETER_ISO | MMAL_PARAMETER_BRIGHTNESS | MMAL_PARAMETER_EXPOSURE_MODE
  | MMAL_PARAMETER_INPUT_CROP | MMAL_PARAMETER_ZERO_COPY | MMAL_PARAMETER_ENABLE_RAW_CAPTURE
  | MMAL_PARAMETER_CAPTURE_STATS_PASS | MMAL_PARAMETER_SHUTTER_SPEED
  | MMAL_PARAMETER_ANALOG_GAIN | MMAL_PARAMETER_CAMERA_INFO

datatype awbmode = MMAL_PARAM_AWBMODE_AUTO

datatype exposuremode = MMAL_PARAM_EXPOSUREMODE_OFF

datatype timestamp_mode = MMAL_PARAM_TIMESTAMP_MODE_RESET_STC

record MMAL_PARAMETER_CAMERA_CONFIG_T =
  max_stills_w :: "32 word"
  max_stills_h :: "32 word"
  stills_yuv422 :: "32 word"
  one_shot_stills :: "32 word"
  max_preview_video_w :: "32 word"
  max_preview_video_h :: "32 word"
  num_preview_video_frames :: "32 word"
  stills_capture_circular_buffer_height :: "32 word"
  fast_preview_resume :: "32 word"
  use_stc_timestamp :: timestamp_mode

text \<open>The parameter structures handed to \<^verbatim>\<open>mmal_port_parameter_set\<close> by their header.\<close>

datatype parameter =
    MMAL_PARAMETER_INT32_T parameter_id int
  | MMAL_PARAMETER_CAMERA_CONFIG_T MMAL_PARAMETER_CAMERA_CONFIG_T
  | MMAL_PARAMETER_AWBMODE_T awbmode
  | MMAL_PARAMETER_EXPOSUREMODE_T exposuremode
  | MMAL_PARAMETER_INPUT_CROP_T MMAL_RECT_T
  | MMAL_PARAMETER_FPS_RANGE_T MMAL_RATIONAL_T MMAL_RATIONAL_T

text \<open>The elementary stream format of a port, as far as the driver writes it: the
  encoding four-character codes are 32-bit words.\<close>

record MMAL_ES_FORMAT_T =
  encoding :: "32 word"
  encoding_variant :: "32 word"
  video_width :: "32 word"
  video_height :: "32 word"
  video_crop :: MMAL_RECT_T
  video_frame_rate :: MMAL_RATIONAL_T
  video_par :: MMAL_RATIONAL_T

text \<open>\<^verbatim>\<open>MMAL_FOURCC(a,b,c,d)\<close> packs four characters, the first in the low byte:
  \<^verbatim>\<open>'OPQV'\<close>, \<^verbatim>\<open>'RGB3'\<close> and \<^verbatim>\<open>'BGR3'\<close>.\<close>

definition MMAL_ENCODING_OPAQUE :: "32 word" where
  "MMAL_ENCODING_OPAQUE = 0x5651504F"

definition MMAL_ENCODING_RGB24 :: "32 word" where
  "MMAL_ENCODING_RGB24 = 0x33424752"

definition MMAL_ENCODING_BGR24 :: "32 word" where
  "MMAL_ENCODING_BGR24 = 0x33524742"

text \<open>What \<^verbatim>\<open>MMAL_PARAMETER_CAMERA_INFO\<close> reports: the number of cameras and, for each
  slot of the fixed array \<^verbatim>\<open>cameras\<close>, the maximum resolution and the name.\<close>

record MMAL_PARAMETER_CAMERA_INFO_CAMERA_T =
  max_width :: "32 word"
  max_height :: "32 word"
  camera_name :: string

record MMAL_PARAMETER_CAMERA_INFO_T =
  num_cameras :: "32 word"
  cameras :: "MMAL_PARAMETER_CAMERA_INFO_CAMERA_T list"

text \<open>
  One constructor for each library function the driver calls, with the arguments of the
  call. \<^verbatim>\<open>mmal_port_parameter_get\<close> carries the number of bytes by which the header's
  \<^verbatim>\<open>size\<close> is short of the structure's. \<open>buffer_size_store\<close> is the one direct store
  into a port structure, \<^verbatim>\<open>port->buffer_size = port->buffer_size_recommended\<close>.
\<close>

datatype call =
    mmal_port_parameter_set port_handle parameter
  | mmal_port_parameter_set_uint32 port_handle parameter_id "32 word"
  | mmal_port_parameter_set_boolean port_handle parameter_id bool
  | mmal_port_parameter_set_rational port_handle parameter_id MMAL_RATIONAL_T
  | mmal_port_parameter_get port_handle parameter_id nat
  | mmal_port_parameter_get_uint32 port_handle parameter_id
  | mmal_port_enable port_handle
  | mmal_port_disable port_handle
  | mmal_port_format_commit port_handle MMAL_ES_FORMAT_T
  | mmal_util_rgb_order_fixed port_handle
  | mmal_component_create component_name
  | mmal_component_enable component_handle
  | mmal_component_disable component_handle
  | mmal_component_destroy component_handle
  | buffer_size_store port_handle

text \<open>
  The library and the firmware behind it are not part of the driver. They are a
  parameter of the model: a deterministic device whose answer to a call may depend on
  every call made before it. \<open>mmal_status\<close> is the status a call returns after a
  history of calls; the \<open>read_\<close> fields are what a get writes into its output
  argument; the remaining fields are the members of the port and component structures
  the driver reads.
\<close>

record hardware =
  mmal_status :: "call list \<Rightarrow> call \<Rightarrow> MMAL_STATUS_T"
  read_uint32 :: "call list \<Rightarrow> call \<Rightarrow> 32 word"
  read_fps_range :: "call list \<Rightarrow> call \<Rightarrow> MMAL_RATIONAL_T \<times> MMAL_RATIONAL_T"
  read_camera_info :: "call list \<Rightarrow> call \<Rightarrow> MMAL_PARAMETER_CAMERA_INFO_T"
  rgb_order_fixed :: "call list \<Rightarrow> port_handle \<Rightarrow> bool"
  is_enabled :: "call list \<Rightarrow> port_handle \<Rightarrow> bool"
  output_num :: "call list \<Rightarrow> 32 word"
  port_format :: "call list \<Rightarrow> port_handle \<Rightarrow> MMAL_ES_FORMAT_T"

section \<open>The driver's state and effects\<close>

text \<open>The lines the driver prints on \<^verbatim>\<open>stderr\<close>, one constructor for each format
  string, with the values printed.\<close>

datatype stderr_line =
    fps_low_high MMAL_RATIONAL_T MMAL_RATIONAL_T
  | starting_capture "32 word"
  | capture_aborted
  | iso_set_to "32 word"
  | failed_to_set_shutter_speed "32 word" "32 word"
  | seting_fps_range MMAL_RATIONAL_T MMAL_RATIONAL_T
  | failed_to_set_fps_ranges MMAL_RATIONAL_T MMAL_RATIONAL_T
  | gain_set_to int int

text \<open>The world outside the object: the calls made so far, oldest first, and the lines
  printed so far.\<close>

record world =
  calls :: "call list"
  stderr :: "stderr_line list"

text \<open>A function either returns or leaves through an \<^verbatim>\<open>MMALException\<close> that carries its
  text. \<open>UndefinedBehaviour\<close> marks the places where C++ gives the program no
  meaning: a conversion of a \<^verbatim>\<open>double\<close> outside the range of \<^verbatim>\<open>int32_t\<close>, a read
  past the end of the \<^verbatim>\<open>cameras\<close> array, and a use of the pointer \<^verbatim>\<open>camera_info\<close> that
  was never set. \<open>std_terminate\<close> is the end of the process through
  \<^verbatim>\<open>std::terminate\<close>, which is what an exception that tries to leave a destructor
  comes to.\<close>

datatype abrupt = MMALException string | UndefinedBehaviour | std_terminate

type_synonym 'a io = "world \<Rightarrow> (abrupt + 'a) \<times> world"

definition io_return :: "'a \<Rightarrow> 'a io" where
  "io_return x w = (Inr x, w)"

definition io_bind :: "'a io \<Rightarrow> ('a \<Rightarrow> 'b io) \<Rightarrow> 'b io" where
  "io_bind m f w = (case m w of (Inl e, w') \<Rightarrow> (Inl e, w') | (Inr x, w') \<Rightarrow> f x w')"

text \<open>Statements one after the other; the first that leaves abruptly ends the sequence.\<close>

fun io_seq :: "unit io list \<Rightarrow> unit io" where
  "io_seq [] = io_return ()"
| "io_seq (m # ms) = io_bind m (\<lambda>_. io_seq ms)"

text \<open>Modelled from the spec: \<^verbatim>\<open>MMALException::throw_if\<close> is declared in
  \<^verbatim>\<open>mmalexception.h\<close>, which is not among the sources. A failing call "raises" an error
  "naming the specific parameter": the exception is thrown exactly when the condition
  holds, and carries the text.\<close>

definition throw_if :: "bool \<Rightarrow> string \<Rightarrow> unit io" where
  "throw_if status text w = (if status then (Inl (MMALException text), w) else (Inr (), w))"

text \<open>The conversion of a status to the \<^verbatim>\<open>bool\<close> that \<^verbatim>\<open>throw_if\<close> takes.\<close>

definition to_bool :: "MMAL_STATUS_T \<Rightarrow> bool" where
  "to_bool status = (status \<noteq> MMAL_SUCCESS)"

text \<open>A call of the library: it is appended to the history and the device's status
  comes back.\<close>

definition mmal :: "hardware \<Rightarrow> call \<Rightarrow> MMAL_STATUS_T io" where
  "mmal hw c w = (Inr (mmal_status hw (calls w) c), w\<lparr>calls := calls w @ [c]\<rparr>)"

text \<open>The idiom \<^verbatim>\<open>MMALException::throw_if(mmal_...(...), "...")\<close>.\<close>

definition throw_if_mmal :: "hardware \<Rightarrow> call \<Rightarrow> string \<Rightarrow> unit io" where
  "throw_if_mmal hw c text = io_bind (mmal hw c) (\<lambda>status. throw_if (to_bool status) text)"

definition fprintf_stderr :: "stderr_line \<Rightarrow> unit io" where
  "fprintf_stderr l w = (Inr (), w\<lparr>stderr := stderr w @ [l]\<rparr>)"

definition io_when :: "bool \<Rightarrow> unit io \<Rightarrow> unit io" where
  "io_when b m = (if b then m else io_return ())"

section \<open>The camera object\<close>

text \<open>
  A finite \<^verbatim>\<open>double\<close> is a signed mantissa times a power of two; \<open>Finite m e\<close> stands
  for \<open>m * 2 ^ e\<close>. Infinities and NaN are \<open>NonFinite\<close>.
\<close>

datatype double = Finite int int | NonFinite

text \<open>The value of a finite double as a rational number.\<close>

fun double_value :: "double \<Rightarrow> rat" where
  "double_value (Finite m e) =
     (if 0 \<le> e then of_int m * 2 ^ nat e else of_int m / 2 ^ nat (- e))"
| "double_value NonFinite = 0"

text \<open>
  \<^verbatim>\<open>gain * 65536\<close>: the factor is \<open>2 ^ 16\<close>, so the product of a finite double is
  exact, sixteen added to the exponent. (Where the exact product would exceed the
  largest double, IEEE arithmetic gives an infinity instead; both are far outside
  \<^verbatim>\<open>int32_t\<close>, and the conversion below treats them alike.)
\<close>

fun times_65536 :: "double \<Rightarrow> double" where
  "times_65536 (Finite m e) = Finite m (e + 16)"
| "times_65536 NonFinite = NonFinite"

text \<open>
  \<^verbatim>\<open>static_cast<int32_t>\<close> of a double discards the fractional part (truncation towards
  zero). When the truncated value is not an \<^verbatim>\<open>int32_t\<close> the behaviour is undefined:
  \<open>None\<close>.
\<close>

fun double_trunc :: "double \<Rightarrow> int" where
  "double_trunc (Finite m e) =
     (if 0 \<le> e then m * 2 ^ nat e else sgn m * (\<bar>m\<bar> div 2 ^ nat (- e)))"
| "double_trunc NonFinite = 0"

fun static_cast_int32 :: "double \<Rightarrow> int option" where
  "static_cast_int32 NonFinite = None"
| "static_cast_int32 d =
     (if - (2 ^ 31) \<le> double_trunc d \<and> double_trunc d < 2 ^ 31 then Some (double_trunc d) else None)"

text \<open>
  The members of \<^verbatim>\<open>MMALCamera\<close> the source file uses. Their declarations are in
  \<^verbatim>\<open>mmalcamera.h\<close>, which is not among the sources; the types are the ones the uses
  fix. \<open>shutter_speed\<close> is handed to \<^verbatim>\<open>mmal_port_parameter_set_uint32\<close> and compared
  with the \<^verbatim>\<open>uint32_t\<close> read back, \<open>width\<close> and \<open>height\<close> are stored into
  \<^verbatim>\<open>uint32_t\<close> fields and cast to \<^verbatim>\<open>int32_t\<close>, \<open>cameraNum\<close> is cast to
  \<^verbatim>\<open>uint32_t\<close>, \<open>gain\<close> is multiplied as a floating-point number.
\<close>

record MMALCamera =
  cameraNum :: int
  cameraName :: string
  shutter_speed :: "32 word"
  iso :: "32 word"
  gain :: double
  width :: "32 word"
  height :: "32 word"
  fps_low :: MMAL_RATIONAL_T
  fps_high :: MMAL_RATIONAL_T

text \<open>What the build fixes: whether \<^verbatim>\<open>USE_ISO\<close> is defined, and the size of the
  \<^verbatim>\<open>cameraName\<close> array (declared in the missing header).\<close>

record build =
  USE_ISO :: bool
  sizeof_cameraName :: nat

subsection \<open>The destructor\<close>

text \<open>
  \<^verbatim>\<open>~MMALCamera\<close> is written without an exception specification, so as a destructor it
  is \<^verbatim>\<open>noexcept\<close>: an exception thrown in its body does not reach the caller, the
  process ends in \<^verbatim>\<open>std::terminate\<close> at the throw. Nothing of the body runs after
  that.
\<close>

definition noexcept :: "'a io \<Rightarrow> 'a io" where
  "noexcept m w =
     (case m w of
        (Inl (MMALException text), w') \<Rightarrow> (Inl std_terminate, w')
      | (r, w') \<Rightarrow> (r, w'))"

definition MMALCamera_destructor :: "hardware \<Rightarrow> unit io" where
  "MMALCamera_destructor hw =
     noexcept (io_seq [
       (\<lambda>w. io_when (is_enabled hw (calls w) (component_output MMAL_CAMERA_CAPTURE_PORT))
          (throw_if_mmal hw (mmal_port_disable (component_output MMAL_CAMERA_CAPTURE_PORT))
             ''Failed to disable capture port'') w),
       (\<lambda>w. io_when (is_enabled hw (calls w) component_control)
          (throw_if_mmal hw (mmal_port_disable component_control)
             ''Failed to disable control port'') w)
     ])"

subsection \<open>capture and abort\<close>

definition capture :: "hardware \<Rightarrow> MMALCamera \<Rightarrow> int io" where
  "capture hw this =
     io_bind (throw_if_mmal hw (mmal_component_enable component)
                ''camera component couldn't be enabled'') (\<lambda>_.
     io_bind (fprintf_stderr (starting_capture (shutter_speed this))) (\<lambda>_.
     io_bind (throw_if_mmal hw
                (mmal_port_parameter_set_boolean (component_output MMAL_CAMERA_CAPTURE_PORT)
                   MMAL_PARAMETER_CAPTURE True)
                ''Failed to start capture'') (\<lambda>_.
     io_return 0)))"

definition abort :: "hardware \<Rightarrow> unit io" where
  "abort hw =
     io_seq [
       throw_if_mmal hw
         (mmal_port_parameter_set_boolean (component_output MMAL_CAMERA_CAPTURE_PORT)
            MMAL_PARAMETER_CAPTURE False)
         ''Failed to abort capture'',
       throw_if_mmal hw (mmal_component_disable component)
         ''camera component couldn't be disabled'',
       fprintf_stderr capture_aborted
     ]"

subsection \<open>set\_camera\_parameters\<close>

definition get_shutter_speed :: "hardware \<Rightarrow> 32 word io" where
  "get_shutter_speed hw w =
     io_bind
       (throw_if_mmal hw
          (mmal_port_parameter_get_uint32 component_control MMAL_PARAMETER_SHUTTER_SPEED)
          ''Failed to get shutter speed'')
       (\<lambda>_. io_return
          (read_uint32 hw (calls w)
             (mmal_port_parameter_get_uint32 component_control MMAL_PARAMETER_SHUTTER_SPEED)))
       w"

text \<open>\<^verbatim>\<open>mmal_port_parameter_get\<close> of the frame-rate range: the status, and the range the
  device writes into the structure (the source reads it only after a successful get).\<close>

definition get_fps_range ::
  "hardware \<Rightarrow> port_handle \<Rightarrow> (MMAL_STATUS_T \<times> MMAL_RATIONAL_T \<times> MMAL_RATIONAL_T) io" where
  "get_fps_range hw p w =
     io_bind (mmal hw (mmal_port_parameter_get p MMAL_PARAMETER_FPS_RANGE 0))
       (\<lambda>status. io_return
          (status, read_fps_range hw (calls w) (mmal_port_parameter_get p MMAL_PARAMETER_FPS_RANGE 0)))
       w"

text \<open>
  The three commented blocks that end \<^verbatim>\<open>set_camera_parameters\<close> are defined on their
  own. The first is \<^verbatim>\<open>// Exposure time.\<close> The comparisons of the shutter speed are
  comparisons of \<^verbatim>\<open>uint32_t\<close> values, and \<open>shutter_speed - 100000\<close> and
  \<open>shutter_speed + 100000\<close> are computed in \<^verbatim>\<open>uint32_t\<close>: they wrap around.
\<close>

definition exposure_time :: "hardware \<Rightarrow> MMALCamera \<Rightarrow> unit io" where
  "exposure_time hw this =
     io_seq [
       throw_if_mmal hw
         (mmal_port_parameter_set_uint32 component_control MMAL_PARAMETER_SHUTTER_SPEED
            (shutter_speed this))
         ''Failed to set shutter speed'',
       io_bind (get_shutter_speed hw) (\<lambda>actual_shutter_speed.
         io_when (actual_shutter_speed < shutter_speed this - 100000
                  \<or> actual_shutter_speed > shutter_speed this + 100000)
           (fprintf_stderr
              (failed_to_set_shutter_speed (shutter_speed this) actual_shutter_speed)))
     ]"

text \<open>\<^verbatim>\<open>// Exposure ranges\<close>\<close>

definition exposure_ranges :: "hardware \<Rightarrow> MMALCamera \<Rightarrow> unit io" where
  "exposure_ranges hw this =
     (let (low, high) =
            (if shutter_speed this > 6000000 then
               (\<lparr>num = 5, den = 1000\<rparr>, \<lparr>num = 166, den = 1000\<rparr>)
             else if shutter_speed this > 1000000 then
               (\<lparr>num = 167, den = 1000\<rparr>, \<lparr>num = 999, den = 1000\<rparr>)
             else (fps_low this, fps_high this))
      in io_seq [
           fprintf_stderr (seting_fps_range low high),
           throw_if_mmal hw
             (mmal_port_parameter_set (component_output MMAL_CAMERA_CAPTURE_PORT)
                (MMAL_PARAMETER_FPS_RANGE_T low high))
             ''Failed to set FPS range'',
           io_bind (get_fps_range hw (component_output MMAL_CAMERA_CAPTURE_PORT))
             (\<lambda>(status, fps_range_low, fps_range_high).
                io_seq [
                  throw_if (to_bool status) ''Failed to get FPS range'',
                  io_when (num fps_range_low \<noteq> num low \<or> den fps_range_low \<noteq> den low
                           \<or> num fps_range_high \<noteq> num high \<or> den fps_range_high \<noteq> den high)
                    (fprintf_stderr (failed_to_set_fps_ranges fps_range_low fps_range_high))])])"

text \<open>\<^verbatim>\<open>// Gain settings\<close>\<close>

definition gain_settings :: "hardware \<Rightarrow> MMALCamera \<Rightarrow> unit io" where
  "gain_settings hw this =
     (case static_cast_int32 (times_65536 (gain this)) of
        None \<Rightarrow> (\<lambda>w. (Inl UndefinedBehaviour, w))
      | Some n \<Rightarrow>
          io_seq [
            throw_if_mmal hw
              (mmal_port_parameter_set_rational component_control MMAL_PARAMETER_ANALOG_GAIN
                 \<lparr>num = n, den = 65536\<rparr>)
              ''Failed to set analog gain'',
            fprintf_stderr (gain_set_to n 65536)])"

text \<open>The body of \<^verbatim>\<open>set_camera_parameters\<close>, statement by statement.\<close>

definition set_camera_parameters :: "hardware \<Rightarrow> build \<Rightarrow> MMALCamera \<Rightarrow> unit io" where
  "set_camera_parameters hw b this =
     io_seq [
       throw_if_mmal hw
         (mmal_port_parameter_set component_control (MMAL_PARAMETER_AWBMODE_T MMAL_PARAM_AWBMODE_AUTO))
         ''Failed to set AWB mode'',
       throw_if_mmal hw
         (mmal_port_parameter_set_rational component_control MMAL_PARAMETER_SATURATION
            \<lparr>num = 10, den = 0\<rparr>)
         ''Failed to set saturation'',
       throw_if_mmal hw
         (mmal_port_parameter_set_rational component_control MMAL_PARAMETER_DIGITAL_GAIN
            \<lparr>num = 1, den = 1\<rparr>)
         ''Failed to set digital gain'',
       io_when (USE_ISO b)
         (io_seq [
            throw_if_mmal hw
              (mmal_port_parameter_set_uint32 component_control MMAL_PARAMETER_ISO (iso this))
              ''Failed to set ISO'',
            fprintf_stderr (iso_set_to (iso this))]),
       throw_if_mmal hw
         (mmal_port_parameter_set_rational component_control MMAL_PARAMETER_BRIGHTNESS
            \<lparr>num = 50, den = 100\<rparr>)
         ''Failed to set brightness'',
       throw_if_mmal hw
         (mmal_port_parameter_set component_control
            (MMAL_PARAMETER_EXPOSUREMODE_T MMAL_PARAM_EXPOSUREMODE_OFF))
         ''Failed to set exposure mode'',
       throw_if_mmal hw
         (mmal_port_parameter_set component_control
            (MMAL_PARAMETER_INPUT_CROP_T
               \<lparr>rect_x = 0, rect_y = 0, rect_width = 0x1000, rect_height = 0x1000\<rparr>))
         ''Failed to set ROI'',
       io_bind (mmal hw (buffer_size_store (component_port MMAL_CAMERA_CAPTURE_PORT)))
         (\<lambda>_. io_return ()),
       throw_if_mmal hw
         (mmal_port_parameter_set_boolean (component_output MMAL_CAMERA_VIDEO_PORT)
            MMAL_PARAMETER_ZERO_COPY True)
         ''Failed to turn on zero-copy for video port'',
       throw_if_mmal hw
         (mmal_port_parameter_set_boolean (component_output MMAL_CAMERA_CAPTURE_PORT)
            MMAL_PARAMETER_ENABLE_RAW_CAPTURE True)
         ''Failed to set raw capture'',
       throw_if_mmal hw
         (mmal_port_parameter_set_uint32 component_control MMAL_PARAMETER_CAPTURE_STATS_PASS 1)
         ''Failed to set CAPTURE_STATS_PASS'',
       exposure_time hw this,
       exposure_ranges hw this,
       gain_settings hw this
     ]"

subsection \<open>set\_capture\_port\_format\<close>

definition util_rgb_order_fixed :: "hardware \<Rightarrow> port_handle \<Rightarrow> bool io" where
  "util_rgb_order_fixed hw p w =
     (Inr (rgb_order_fixed hw (calls w) p), w\<lparr>calls := calls w @ [mmal_util_rgb_order_fixed p]\<rparr>)"

text \<open>\<open>format\<close> points at the format of the capture port; the stores into it reach
  the device with the commit, which carries the resulting format.\<close>

definition set_capture_port_format :: "hardware \<Rightarrow> MMALCamera \<Rightarrow> unit io" where
  "set_capture_port_format hw this w =
     (let format0 = port_format hw (calls w) (component_output MMAL_CAMERA_CAPTURE_PORT);
          format1 = format0\<lparr>encoding := MMAL_ENCODING_OPAQUE, encoding_variant := 0\<rparr>
      in io_bind (util_rgb_order_fixed hw (component_output MMAL_CAMERA_CAPTURE_PORT))
           (\<lambda>fixed.
              let format2 =
                    (if \<not> fixed then
                       (if encoding format1 = MMAL_ENCODING_RGB24
                          then format1\<lparr>encoding := MMAL_ENCODING_BGR24\<rparr>
                        else if encoding format1 = MMAL_ENCODING_BGR24
                          then format1\<lparr>encoding := MMAL_ENCODING_RGB24\<rparr>
                        else format1)
                     else format1);
                  format3 = format2\<lparr>
                    encoding_variant := 0,
                    video_width := width this,
                    video_height := height this,
                    video_crop := \<lparr>rect_x = 0, rect_y = 0,
                                   rect_width = sint (width this),
                                   rect_height = sint (height this)\<rparr>,
                    video_frame_rate := \<lparr>num = 0, den = 1\<rparr>,
                    video_par := \<lparr>num = 1, den = 1\<rparr>\<rparr>
              in throw_if_mmal hw
                   (mmal_port_format_commit (component_output MMAL_CAMERA_CAPTURE_PORT) format3)
                   ''camera capture port format couldn't be set'')
           w)"

subsection \<open>get\_sensor\_info\<close>

text \<open>\<^verbatim>\<open>mmal_port_parameter_get\<close> of the camera information: the status and the
  structure the device fills in.\<close>

definition get_camera_info ::
  "hardware \<Rightarrow> port_handle \<Rightarrow> nat \<Rightarrow> (MMAL_STATUS_T \<times> MMAL_PARAMETER_CAMERA_INFO_T) io" where
  "get_camera_info hw p short w =
     io_bind (mmal hw (mmal_port_parameter_get p MMAL_PARAMETER_CAMERA_INFO short))
       (\<lambda>status. io_return
          (status,
           read_camera_info hw (calls w) (mmal_port_parameter_get p MMAL_PARAMETER_CAMERA_INFO short)))
       w"

text \<open>
  \<^verbatim>\<open>mmal_component_create\<close> stores the new component into \<^verbatim>\<open>camera_info\<close> only when it
  succeeds, and the source overwrites its status without reading it. After a failed
  creation the pointer is unset, and each use of it (\<^verbatim>\<open>camera_info->control\<close>, and
  the argument of \<^verbatim>\<open>mmal_component_destroy\<close>) is undefined behaviour. The model keeps
  the status of the creation for this alone.
\<close>

definition use_camera_info :: "MMAL_STATUS_T \<Rightarrow> unit io" where
  "use_camera_info created =
     (if created \<noteq> MMAL_SUCCESS then (\<lambda>w. (Inl UndefinedBehaviour, w)) else io_return ())"

text \<open>
  A name is the characters before the terminating zero;
  \<^verbatim>\<open>strncpy(cameraName, s, sizeof cameraName)\<close> followed by the store of a zero into the
  last element keeps the first \<open>sizeof cameraName - 1\<close> characters. An index outside
  the \<^verbatim>\<open>cameras\<close> array is undefined behaviour.
\<close>

definition get_sensor_info :: "hardware \<Rightarrow> build \<Rightarrow> MMALCamera \<Rightarrow> MMALCamera io" where
  "get_sensor_info hw b this =
     io_bind (mmal hw (mmal_component_create MMAL_COMPONENT_DEFAULT_CAMERA_INFO)) (\<lambda>created.
     let this1 = this\<lparr>cameraName := take (sizeof_cameraName b) ''OV5647''\<rparr> in
     io_bind (get_camera_info hw component_control 4) (\<lambda>(status, _).
     io_bind
       (if status \<noteq> MMAL_SUCCESS then
          io_bind (use_camera_info created) (\<lambda>_.
          io_bind (get_camera_info hw camera_info_control 0) (\<lambda>(status, param).
          io_bind (throw_if (to_bool status) ''Failed to get camera parameters.'') (\<lambda>_.
          io_bind (throw_if (num_cameras param \<le> word_of_int (cameraNum this1))
                     ''Camera number not found.'') (\<lambda>_.
          if 0 \<le> cameraNum this1 \<and> nat (cameraNum this1) < length (cameras param) then
            io_return (this1\<lparr>
              cameraName :=
                take (sizeof_cameraName b - 1)
                  (camera_name (cameras param ! nat (cameraNum this1))),
              width := max_width (cameras param ! nat (cameraNum this1)),
              height := max_height (cameras param ! nat (cameraNum this1))\<rparr>)
          else (\<lambda>w. (Inl UndefinedBehaviour, w))))))
        else io_return (this1\<lparr>width := 2592, height := 1944\<rparr>)) (\<lambda>this2.
     io_bind (use_camera_info created) (\<lambda>_.
     io_bind (mmal hw (mmal_component_destroy camera_info)) (\<lambda>_.
     io_return this2)))))"

subsection \<open>The constructor\<close>

text \<open>Modelled from the spec: the base class \<^verbatim>\<open>MMALComponent\<close> is defined in a file that
  is not among the sources. Its constructor creates "the hardware component handle"; a
  failure ends the construction. The text of the exception is not known.\<close>

definition MMALComponent_constructor :: "hardware \<Rightarrow> component_name \<Rightarrow> unit io" where
  "MMALComponent_constructor hw name =
     throw_if_mmal hw (mmal_component_create name) ''Failed to create component''"

text \<open>Modelled from the spec: \<^verbatim>\<open>enable_port_with_callback\<close> is a member of the missing
  base class. It "enables a control channel with an asynchronous callback sink"; a
  failure is fatal. The text of the exception is not known.\<close>

definition enable_port_with_callback :: "hardware \<Rightarrow> port_handle \<Rightarrow> unit io" where
  "enable_port_with_callback hw p =
     throw_if_mmal hw (mmal_port_enable p) ''Failed to enable port''"

text \<open>\<open>this\<close> is the object with the default member initialisers of the header.\<close>

definition MMALCamera_constructor ::
  "hardware \<Rightarrow> build \<Rightarrow> MMALCamera \<Rightarrow> int \<Rightarrow> MMALCamera io" where
  "MMALCamera_constructor hw b this n =
     io_bind (MMALComponent_constructor hw MMAL_COMPONENT_DEFAULT_CAMERA) (\<lambda>_.
     let this1 = this\<lparr>cameraNum := n\<rparr> in
     io_bind (throw_if_mmal hw
                (mmal_port_parameter_set component_control
                   (MMAL_PARAMETER_INT32_T MMAL_PARAMETER_CAMERA_NUM (cameraNum this1)))
                ''Could not select camera'') (\<lambda>_.
     io_bind (\<lambda>w. throw_if (output_num hw (calls w) = 0)
                ''Camera doesn't have output ports'' w) (\<lambda>_.
     io_bind (throw_if_mmal hw
                (mmal_port_parameter_set_uint32 component_control
                   MMAL_PARAMETER_CAMERA_CUSTOM_SENSOR_CONFIG 0)
                ''Could not set sensor mode'') (\<lambda>_.
     io_bind (enable_port_with_callback hw component_control) (\<lambda>_.
     io_bind (get_sensor_info hw b this1) (\<lambda>this2.
     io_bind (throw_if_mmal hw
                (mmal_port_parameter_set component_control
                   (MMAL_PARAMETER_CAMERA_CONFIG_T
                      \<lparr>max_stills_w = width this2,
                       max_stills_h = height this2,
                       stills_yuv422 = 0,
                       one_shot_stills = 1,
                       max_preview_video_w = 1024,
                       max_preview_video_h = 768,
                       num_preview_video_frames = 1,
                       stills_capture_circular_buffer_height = 0,
                       fast_preview_resume = 0,
                       use_stc_timestamp = MMAL_PARAM_TIMESTAMP_MODE_RESET_STC\<rparr>))
                ''Failed to set camera config'') (\<lambda>_.
     io_bind (set_capture_port_format hw this2) (\<lambda>_.
     io_bind (get_fps_range hw (component_output MMAL_CAMERA_CAPTURE_PORT))
       (\<lambda>(status, fps_range_low, fps_range_high).
     io_bind (throw_if (to_bool status) ''Failed to get FPS range'') (\<lambda>_.
     let this3 = this2\<lparr>fps_low := fps_range_low, fps_high := fps_range_high\<rparr> in
     io_bind (fprintf_stderr (fps_low_high (fps_low this3) (fps_high this3))) (\<lambda>_.
     io_return this3)))))))))))"

section \<open>Observations\<close>

text \<open>The calls a run adds to the history, and the lines it prints.\<close>

definition new_calls :: "'a io \<Rightarrow> world \<Rightarrow> call list" where
  "new_calls m w = drop (length (calls w)) (calls (snd (m w)))"

definition new_stderr :: "'a io \<Rightarrow> world \<Rightarrow> stderr_line list" where
  "new_stderr m w = drop (length (stderr w)) (stderr (snd (m w)))"

text \<open>A run that only adds calls satisfying \<open>P\<close> to the history.\<close>

definition only_calls :: "(call \<Rightarrow> bool) \<Rightarrow> 'a io \<Rightarrow> bool" where
  "only_calls P m = (\<forall>w. \<exists>cs. calls (snd (m w)) = calls w @ cs \<and> list_all P cs)"

section \<open>Concrete devices and objects\<close>

text \<open>A world in which nothing has happened yet.\<close>

definition fresh_world :: world where
  "fresh_world = \<lparr>calls = [], stderr = []\<rparr>"

definition rgb24_format :: MMAL_ES_FORMAT_T where
  "rgb24_format =
     \<lparr>encoding = MMAL_ENCODING_RGB24, encoding_variant = 0,
      video_width = 0, video_height = 0,
      video_crop = \<lparr>rect_x = 0, rect_y = 0, rect_width = 0, rect_height = 0\<rparr>,
      video_frame_rate = \<lparr>num = 0, den = 0\<rparr>,
      video_par = \<lparr>num = 0, den = 0\<rparr>\<rparr>"

definition imx477 :: MMAL_PARAMETER_CAMERA_INFO_CAMERA_T where
  "imx477 = \<lparr>max_width = 4056, max_height = 3040, camera_name = ''imx477''\<rparr>"

text \<open>
  A device on newer firmware with one sensor: the undersized camera-info query on the
  camera's own control port is refused and every other call succeeds. The shutter speed
  reads back as 50000, the frame-rate range as 2/1 to 30/1, no port is enabled, the RGB
  order is not fixed and the capture port's format asks for RGB24.
\<close>

definition new_firmware :: hardware where
  "new_firmware =
     \<lparr>mmal_status =
        (\<lambda>h c. if c = mmal_port_parameter_get component_control MMAL_PARAMETER_CAMERA_INFO 4
                then MMAL_EINVAL else MMAL_SUCCESS),
      read_uint32 = (\<lambda>h c. 50000),
      read_fps_range = (\<lambda>h c. (\<lparr>num = 2, den = 1\<rparr>, \<lparr>num = 30, den = 1\<rparr>)),
      read_camera_info = (\<lambda>h c. \<lparr>num_cameras = 1, cameras = [imx477]\<rparr>),
      rgb_order_fixed = (\<lambda>h p. False),
      is_enabled = (\<lambda>h p. False),
      output_num = (\<lambda>h. 3),
      port_format = (\<lambda>h p. rgb24_format)\<rparr>"

text \<open>The same device with both ports enabled and every call refused.\<close>

definition rejecting_hardware :: hardware where
  "rejecting_hardware =
     new_firmware\<lparr>mmal_status := (\<lambda>h c. MMAL_EINVAL), is_enabled := (\<lambda>h p. True)\<rparr>"

text \<open>A device on which both camera-info queries are refused and every other call,
  the creation of the camera-info component among them, succeeds.\<close>

definition probe_failing_firmware :: hardware where
  "probe_failing_firmware =
     new_firmware\<lparr>mmal_status :=
       (\<lambda>h c. if c = mmal_port_parameter_get component_control MMAL_PARAMETER_CAMERA_INFO 4
                  \<or> c = mmal_port_parameter_get camera_info_control MMAL_PARAMETER_CAMERA_INFO 0
               then MMAL_EINVAL else MMAL_SUCCESS)\<rparr>"

definition example_build :: build where
  "example_build = \<lparr>USE_ISO = False, sizeof_cameraName = 16\<rparr>"

text \<open>An object with a shutter speed of 50 ms and a gain of 2.0.\<close>

definition example_camera :: MMALCamera where
  "example_camera =
     \<lparr>cameraNum = 0, cameraName = ''imx477'', shutter_speed = 50000, iso = 0,
      gain = Finite 1 1, width = 4056, height = 3040,
      fps_low = \<lparr>num = 2, den = 1\<rparr>, fps_high = \<lparr>num = 30, den = 1\<rparr>\<rparr>"

section \<open>Reasoning about runs\<close>

lemmas io_defs = io_bind_def io_return_def throw_if_def to_bool_def mmal_def throw_if_mmal_def
  fprintf_stderr_def io_when_def

lemma only_calls_return: "only_calls P (io_return x)"
  by (simp add: only_calls_def io_return_def)

lemma only_calls_bind:
  assumes "only_calls P m" and "\<And>x. only_calls P (f x)"
  shows "only_calls P (io_bind m f)"
  unfolding only_calls_def
proof
  fix w
  from assms(1) obtain cs where cs: "calls (snd (m w)) = calls w @ cs" "list_all P cs"
    unfolding only_calls_def by blast
  show "\<exists>cs. calls (snd (io_bind m f w)) = calls w @ cs \<and> list_all P cs"
  proof (cases "m w")
    case (Pair r w')
    show ?thesis
    proof (cases r)
      case (Inl e)
      with Pair cs show ?thesis by (auto simp: io_bind_def)
    next
      case (Inr x)
      from assms(2)[of x] obtain ds where ds: "calls (snd (f x w')) = calls w' @ ds" "list_all P ds"
        unfolding only_calls_def by blast
      with Pair Inr cs show ?thesis by (auto simp: io_bind_def)
    qed
  qed
qed

lemma only_calls_throw_if: "only_calls P (throw_if c t)"
  by (simp add: only_calls_def throw_if_def)

lemma only_calls_mmal: "P c \<Longrightarrow> only_calls P (mmal hw c)"
  by (simp add: only_calls_def mmal_def)

lemma only_calls_throw_if_mmal: "P c \<Longrightarrow> only_calls P (throw_if_mmal hw c t)"
  unfolding throw_if_mmal_def
  by (intro only_calls_bind only_calls_mmal only_calls_throw_if)

lemma only_calls_fprintf: "only_calls P (fprintf_stderr l)"
  by (simp add: only_calls_def fprintf_stderr_def)

lemma only_calls_when: "only_calls P m \<Longrightarrow> only_calls P (io_when c m)"
  by (simp add: io_when_def only_calls_return)

lemma only_calls_seq: "(\<And>m. m \<in> set ms \<Longrightarrow> only_calls P m) \<Longrightarrow> only_calls P (io_seq ms)"
  by (induction ms) (auto intro: only_calls_return only_calls_bind)

lemma only_calls_get_shutter_speed:
  "P (mmal_port_parameter_get_uint32 component_control MMAL_PARAMETER_SHUTTER_SPEED) \<Longrightarrow>
   only_calls P (get_shutter_speed hw)"
  unfolding only_calls_def get_shutter_speed_def
  by (simp add: io_defs)

lemma only_calls_get_fps_range:
  "P (mmal_port_parameter_get p MMAL_PARAMETER_FPS_RANGE 0) \<Longrightarrow> only_calls P (get_fps_range hw p)"
  unfolding only_calls_def get_fps_range_def
  by (simp add: io_defs)

lemma only_calls_undefined: "only_calls P (\<lambda>w. (Inl UndefinedBehaviour, w))"
  by (simp add: only_calls_def)

lemmas only_calls_intros = only_calls_return only_calls_bind only_calls_throw_if only_calls_mmal
  only_calls_throw_if_mmal only_calls_fprintf only_calls_when only_calls_seq
  only_calls_get_shutter_speed only_calls_get_fps_range only_calls_undefined

lemma only_calls_exposure_time:
  assumes "P (mmal_port_parameter_set_uint32 component_control MMAL_PARAMETER_SHUTTER_SPEED
                (shutter_speed this))"
    and "P (mmal_port_parameter_get_uint32 component_control MMAL_PARAMETER_SHUTTER_SPEED)"
  shows "only_calls P (exposure_time hw this)"
  unfolding exposure_time_def using assms
  by (auto intro!: only_calls_intros)

lemma only_calls_exposure_ranges:
  assumes "\<And>low high.
      (low, high) =
        (if shutter_speed this > 6000000 then
           (\<lparr>num = 5, den = 1000\<rparr>, \<lparr>num = 166, den = 1000\<rparr>)
         else if shutter_speed this > 1000000 then
           (\<lparr>num = 167, den = 1000\<rparr>, \<lparr>num = 999, den = 1000\<rparr>)
         else (fps_low this, fps_high this)) \<Longrightarrow>
      P (mmal_port_parameter_set (component_output MMAL_CAMERA_CAPTURE_PORT)
           (MMAL_PARAMETER_FPS_RANGE_T low high))"
    and "P (mmal_port_parameter_get (component_output MMAL_CAMERA_CAPTURE_PORT)
              MMAL_PARAMETER_FPS_RANGE 0)"
  shows "only_calls P (exposure_ranges hw this)"
  unfolding exposure_ranges_def Let_def using assms
  by (auto intro!: only_calls_intros split: prod.splits)

lemma only_calls_gain_settings:
  assumes "\<And>n. static_cast_int32 (times_65536 (gain this)) = Some n \<Longrightarrow>
      P (mmal_port_parameter_set_rational component_control MMAL_PARAMETER_ANALOG_GAIN
           \<lparr>num = n, den = 65536\<rparr>)"
  shows "only_calls P (gain_settings hw this)"
  unfolding gain_settings_def using assms
  by (auto intro!: only_calls_intros split: option.splits)

lemma only_calls_set_camera_parameters:
  assumes "\<And>c. c \<in> {
       mmal_port_parameter_set component_control (MMAL_PARAMETER_AWBMODE_T MMAL_PARAM_AWBMODE_AUTO),
       mmal_port_parameter_set_rational component_control MMAL_PARAMETER_SATURATION \<lparr>num = 10, den = 0\<rparr>,
       mmal_port_parameter_set_rational component_control MMAL_PARAMETER_DIGITAL_GAIN \<lparr>num = 1, den = 1\<rparr>,
       mmal_port_parameter_set_uint32 component_control MMAL_PARAMETER_ISO (iso this),
       mmal_port_parameter_set_rational component_control MMAL_PARAMETER_BRIGHTNESS \<lparr>num = 50, den = 100\<rparr>,
       mmal_port_parameter_set component_control (MMAL_PARAMETER_EXPOSUREMODE_T MMAL_PARAM_EXPOSUREMODE_OFF),
       mmal_port_parameter_set component_control
            (MMAL_PARAMETER_INPUT_CROP_T
               \<lparr>rect_x = 0, rect_y = 0, rect_width = 0x1000, rect_height = 0x1000\<rparr>),
       buffer_size_store (component_port MMAL_CAMERA_CAPTURE_PORT),
       mmal_port_parameter_set_boolean (component_output MMAL_CAMERA_VIDEO_PORT)
            MMAL_PARAMETER_ZERO_COPY True,
       mmal_port_parameter_set_boolean (component_output MMAL_CAMERA_CAPTURE_PORT)
            MMAL_PARAMETER_ENABLE_RAW_CAPTURE True,
       mmal_port_parameter_set_uint32 component_control MMAL_PARAMETER_CAPTURE_STATS_PASS 1} \<Longrightarrow> P c"
    and "only_calls P (exposure_time hw this)"
    and "only_calls P (exposure_ranges hw this)"
    and "only_calls P (gain_settings hw this)"
  shows "only_calls P (set_camera_parameters hw b this)"
  unfolding set_camera_parameters_def
  apply (rule only_calls_seq)
  apply (simp only: set_simps)
  apply (elim insertE emptyE)
  using assms
  apply (auto intro!: only_calls_intros)
  done

lemma only_calls_new_calls:
  assumes "only_calls P m"
  shows "calls (snd (m w)) = calls w @ new_calls m w" and "list_all P (new_calls m w)"
proof -
  from assms obtain cs where "calls (snd (m w)) = calls w @ cs" "list_all P cs"
    unfolding only_calls_def by blast
  then show "calls (snd (m w)) = calls w @ new_calls m w" and "list_all P (new_calls m w)"
    by (simp_all add: new_calls_def)
qed

lemma new_calls_bind:
  assumes "only_calls P m" and "\<And>x. only_calls Q (f x)"
  shows "new_calls (io_bind m f) w =
     new_calls m w @ (case fst (m w) of Inl e \<Rightarrow> [] | Inr x \<Rightarrow> new_calls (f x) (snd (m w)))"
proof (cases "m w")
  case (Pair r w')
  have m: "calls w' = calls w @ new_calls m w"
    using only_calls_new_calls(1)[OF assms(1), of w] Pair by simp
  show ?thesis
  proof (cases r)
    case (Inl e)
    with Pair show ?thesis by (simp add: new_calls_def io_bind_def)
  next
    case (Inr x)
    have "calls (snd (f x w')) = calls w' @ new_calls (f x) w'"
      using only_calls_new_calls(1)[OF assms(2)] .
    with m have "calls (snd (f x w')) = calls w @ new_calls m w @ new_calls (f x) w'" by simp
    with Pair Inr show ?thesis by (simp add: new_calls_def[of "io_bind m f"] io_bind_def)
  qed
qed

lemma io_seq_Inr_member:
  assumes "fst (io_seq ms w) = Inr ()" and "\<And>m. m \<in> set ms \<Longrightarrow> only_calls P m" and "m \<in> set ms"
  shows "\<exists>w'. fst (m w') = Inr () \<and> set (new_calls m w') \<subseteq> set (new_calls (io_seq ms) w)"
  using assms
proof (induction ms arbitrary: w)
  case Nil
  then show ?case by simp
next
  case (Cons a ms)
  have a: "only_calls P a" using Cons.prems(2) by simp
  have rest: "only_calls P (io_seq ms)" using Cons.prems(2) by (auto intro: only_calls_seq)
  have split: "new_calls (io_seq (a # ms)) w =
     new_calls a w @ (case fst (a w) of Inl e \<Rightarrow> [] | Inr x \<Rightarrow> new_calls (io_seq ms) (snd (a w)))"
    using new_calls_bind[OF a, of P "\<lambda>_. io_seq ms" w] rest by simp
  from Cons.prems(1) have ok: "fst (a w) = Inr ()" and ok': "fst (io_seq ms (snd (a w))) = Inr ()"
    by (auto simp: io_bind_def split: prod.splits sum.splits)
  show ?case
  proof (cases "m = a")
    case True
    with ok split show ?thesis by (intro exI[of _ w]) auto
  next
    case False
    with Cons.prems(3) have "m \<in> set ms" by simp
    from Cons.IH[OF ok' _ this] Cons.prems(2)
    obtain w' where "fst (m w') = Inr ()"
      "set (new_calls m w') \<subseteq> set (new_calls (io_seq ms) (snd (a w)))" by auto
    with split ok show ?thesis by (intro exI[of _ w']) auto
  qed
qed

lemma new_calls_throw_if_mmal: "new_calls (throw_if_mmal hw c t) w = [c]"
  by (simp add: new_calls_def io_defs)

lemma fst_throw_if_mmal:
  "fst (throw_if_mmal hw c t w) =
     (if mmal_status hw (calls w) c = MMAL_SUCCESS then Inr () else Inl (MMALException t))"
  by (simp add: io_defs)

lemma snd_throw_if_mmal: "snd (throw_if_mmal hw c t w) = w\<lparr>calls := calls w @ [c]\<rparr>"
  by (simp add: io_defs)

lemma new_calls_io_seq_Cons:
  assumes "only_calls P m" and "\<forall>m' \<in> set ms. only_calls P m'"
  shows "new_calls (io_seq (m # ms)) w =
     new_calls m w @ (case fst (m w) of Inl e \<Rightarrow> [] | Inr x \<Rightarrow> new_calls (io_seq ms) (snd (m w)))"
proof -
  have "only_calls P (io_seq ms)" using assms(2) by (auto intro: only_calls_seq)
  with new_calls_bind[OF assms(1), of P "\<lambda>_. io_seq ms" w] show ?thesis by simp
qed

lemma set_camera_parameters_statements:
  "\<exists>rest. set_camera_parameters hw b this =
      io_seq (throw_if_mmal hw
                (mmal_port_parameter_set component_control
                   (MMAL_PARAMETER_AWBMODE_T MMAL_PARAM_AWBMODE_AUTO))
                ''Failed to set AWB mode''
              # throw_if_mmal hw
                  (mmal_port_parameter_set_rational component_control MMAL_PARAMETER_SATURATION
                     \<lparr>num = 10, den = 0\<rparr>)
                  ''Failed to set saturation''
              # rest
              @ [exposure_time hw this, exposure_ranges hw this, gain_settings hw this])
    \<and> (\<forall>m \<in> set rest. only_calls (\<lambda>_. True) m)"
  unfolding set_camera_parameters_def
  apply (rule exI[of _ "[_, _, _, _, _, _, _, _, _]"])
  apply (rule conjI)
   apply simp
  apply (simp only: set_simps)
  apply (auto intro!: only_calls_intros)
  done

lemma only_calls_blocks:
  "only_calls (\<lambda>_. True) (exposure_time hw this)"
  "only_calls (\<lambda>_. True) (exposure_ranges hw this)"
  "only_calls (\<lambda>_. True) (gain_settings hw this)"
  by (auto intro!: only_calls_exposure_time only_calls_exposure_ranges only_calls_gain_settings)

lemma set_camera_parameters_runs_blocks:
  assumes "fst (set_camera_parameters hw b this w) = Inr ()"
    and "m \<in> {exposure_time hw this, exposure_ranges hw this, gain_settings hw this,
              throw_if_mmal hw
                  (mmal_port_parameter_set_rational component_control MMAL_PARAMETER_SATURATION
                     \<lparr>num = 10, den = 0\<rparr>)
                  ''Failed to set saturation''}"
  shows "\<exists>w'. fst (m w') = Inr ()
            \<and> set (new_calls m w') \<subseteq> set (new_calls (set_camera_parameters hw b this) w)"
proof -
  from set_camera_parameters_statements[of hw b this] obtain ms
    where eq: "set_camera_parameters hw b this = io_seq ms"
      and mem: "exposure_time hw this \<in> set ms" "exposure_ranges hw this \<in> set ms"
         "gain_settings hw this \<in> set ms"
         "throw_if_mmal hw
                  (mmal_port_parameter_set_rational component_control MMAL_PARAMETER_SATURATION
                     \<lparr>num = 10, den = 0\<rparr>)
                  ''Failed to set saturation'' \<in> set ms"
      and only: "\<forall>m \<in> set ms. only_calls (\<lambda>_. True) m"
    by (fastforce intro: only_calls_blocks only_calls_throw_if_mmal)
  from assms(2) mem have "m \<in> set ms" by auto
  from io_seq_Inr_member[OF assms(1)[unfolded eq] _ this, of "\<lambda>_. True"] only
  show ?thesis unfolding eq by blast
qed

section \<open>abort\<close>

text \<open>
  On a device that refuses every call, \<open>abort\<close> makes the call that clears the capture
  flag, leaves with the exception of that step, and never calls
  \<^verbatim>\<open>mmal_component_disable\<close>.
\<close>

theorem abort_stops_at_first_failure_counterexample:
  "abort rejecting_hardware fresh_world =
     (Inl (MMALException ''Failed to abort capture''),
      \<lparr>calls = [mmal_port_parameter_set_boolean (component_output MMAL_CAMERA_CAPTURE_PORT)
                  MMAL_PARAMETER_CAPTURE False],
       stderr = []\<rparr>)"
  by (simp add: abort_def io_defs rejecting_hardware_def new_firmware_def fresh_world_def)

text \<open>
  C4, as the code has it. \<open>abort\<close> always clears the capture flag first. When that call
  fails, \<open>abort\<close> leaves at once with the exception "Failed to abort capture" and the
  component is not disabled; only when it succeeds is the component disabled, and a
  failure of that second call leaves with "camera component couldn't be disabled".
\<close>

theorem abort_fail_fast:
  assumes "clear = mmal_port_parameter_set_boolean (component_output MMAL_CAMERA_CAPTURE_PORT)
                     MMAL_PARAMETER_CAPTURE False"
    and "disable = mmal_component_disable component"
  shows "new_calls (abort hw) w =
           (if mmal_status hw (calls w) clear = MMAL_SUCCESS then [clear, disable] else [clear])
         \<and> fst (abort hw w) =
           (if mmal_status hw (calls w) clear \<noteq> MMAL_SUCCESS
              then Inl (MMALException ''Failed to abort capture'')
            else if mmal_status hw (calls w @ [clear]) disable \<noteq> MMAL_SUCCESS
              then Inl (MMALException ''camera component couldn't be disabled'')
            else Inr ())"
  unfolding assms by (simp add: abort_def io_defs new_calls_def)

theorem abort_fail_fast_witness:
  "new_calls (abort rejecting_hardware) fresh_world =
     [mmal_port_parameter_set_boolean (component_output MMAL_CAMERA_CAPTURE_PORT)
        MMAL_PARAMETER_CAPTURE False]
   \<and> fst (abort rejecting_hardware fresh_world) = Inl (MMALException ''Failed to abort capture'')
   \<and> new_calls (abort new_firmware) fresh_world =
     [mmal_port_parameter_set_boolean (component_output MMAL_CAMERA_CAPTURE_PORT)
        MMAL_PARAMETER_CAPTURE False, mmal_component_disable component]
   \<and> fst (abort new_firmware fresh_world) = Inr ()"
  using abort_fail_fast [OF refl refl, of rejecting_hardware fresh_world]
    abort_fail_fast [OF refl refl, of new_firmware fresh_world]
  by (simp add: rejecting_hardware_def new_firmware_def fresh_world_def)

section \<open>The destructor\<close>

text \<open>
  Both ports are enabled and the device refuses every call: the destructor tries to
  disable the capture port and never tries to disable the control port.
\<close>

theorem destructor_stops_at_first_failure_counterexample:
  "is_enabled rejecting_hardware [] (component_output MMAL_CAMERA_CAPTURE_PORT)
   \<and> is_enabled rejecting_hardware [mmal_port_disable (component_output MMAL_CAMERA_CAPTURE_PORT)]
        component_control
   \<and> mmal_status rejecting_hardware []
        (mmal_port_disable (component_output MMAL_CAMERA_CAPTURE_PORT)) = MMAL_EINVAL
   \<and> new_calls (MMALCamera_destructor rejecting_hardware) fresh_world =
        [mmal_port_disable (component_output MMAL_CAMERA_CAPTURE_PORT)]"
  by (simp add: MMALCamera_destructor_def noexcept_def io_defs new_calls_def
      rejecting_hardware_def new_firmware_def fresh_world_def)

text \<open>
  C5, as the code has it, on the calls the destructor makes. When the capture port is
  enabled, its disable is the first call; the control port's disable follows only if
  that call succeeded and the control port is enabled then. So a failing disable of the
  capture port is the destructor's last call: the control port's disable is not
  attempted. When the capture port is not enabled, the control port's disable is the one
  call, made if that port is enabled.
\<close>

theorem destructor_fail_fast:
  assumes "capture_port = component_output MMAL_CAMERA_CAPTURE_PORT"
  shows "new_calls (MMALCamera_destructor hw) w =
     (if is_enabled hw (calls w) capture_port then
        mmal_port_disable capture_port #
          (if mmal_status hw (calls w) (mmal_port_disable capture_port) = MMAL_SUCCESS
              \<and> is_enabled hw (calls w @ [mmal_port_disable capture_port]) component_control
           then [mmal_port_disable component_control] else [])
      else if is_enabled hw (calls w) component_control
        then [mmal_port_disable component_control] else [])"
  unfolding assms
  by (simp add: MMALCamera_destructor_def noexcept_def io_defs new_calls_def)

theorem destructor_fail_fast_witness:
  "new_calls (MMALCamera_destructor rejecting_hardware) fresh_world =
     [mmal_port_disable (component_output MMAL_CAMERA_CAPTURE_PORT)]
   \<and> new_calls (MMALCamera_destructor (new_firmware\<lparr>is_enabled := (\<lambda>h p. True)\<rparr>))
        fresh_world =
     [mmal_port_disable (component_output MMAL_CAMERA_CAPTURE_PORT),
      mmal_port_disable component_control]"
  using destructor_fail_fast [OF refl, of rejecting_hardware fresh_world]
    destructor_fail_fast [OF refl, of "new_firmware\<lparr>is_enabled := (\<lambda>h p. True)\<rparr>" fresh_world]
  by (simp add: rejecting_hardware_def new_firmware_def fresh_world_def)

text \<open>A failing disable does not reach the caller as an exception: the run ends in
  \<open>std_terminate\<close>.\<close>

lemma destructor_failure_terminates:
  assumes "is_enabled hw (calls w) (component_output MMAL_CAMERA_CAPTURE_PORT)"
    and "mmal_status hw (calls w) (mmal_port_disable (component_output MMAL_CAMERA_CAPTURE_PORT))
           \<noteq> MMAL_SUCCESS"
  shows "fst (MMALCamera_destructor hw w) = Inl std_terminate"
  using assms by (simp add: MMALCamera_destructor_def noexcept_def io_defs)

text \<open>
  C9. When neither the capture output port nor the control port is enabled, the
  destructor returns normally and leaves the world as it found it: no call is made, so
  no port is disabled, and no exception is thrown.
\<close>

theorem destructor_ports_never_enabled:
  assumes "\<not> is_enabled hw (calls w) (component_output MMAL_CAMERA_CAPTURE_PORT)"
    and "\<not> is_enabled hw (calls w) component_control"
  shows "MMALCamera_destructor hw w = (Inr (), w)"
  using assms by (simp add: MMALCamera_destructor_def noexcept_def io_defs)

theorem destructor_ports_never_enabled_witness:
  "\<not> is_enabled new_firmware (calls fresh_world) (component_output MMAL_CAMERA_CAPTURE_PORT)
   \<and> \<not> is_enabled new_firmware (calls fresh_world) component_control
   \<and> MMALCamera_destructor new_firmware fresh_world = (Inr (), fresh_world)
   \<and> new_calls (MMALCamera_destructor new_firmware) fresh_world = []"
proof -
  have a: "\<not> is_enabled new_firmware (calls fresh_world) (component_output MMAL_CAMERA_CAPTURE_PORT)"
    and b: "\<not> is_enabled new_firmware (calls fresh_world) component_control"
    by (simp_all add: new_firmware_def)
  from destructor_ports_never_enabled [OF a b] a b show ?thesis
    by (simp add: new_calls_def)
qed

section \<open>set\_camera\_parameters: saturation\<close>

text \<open>
  C10. Every saturation value that a run of \<open>set_camera_parameters\<close> hands to the
  device goes to the control port and is the pair \<open>(10, 0)\<close>, whose denominator is
  zero. The call is the second of the run: it is made whenever the white-balance call
  before it succeeds, and so in every run that returns normally.
\<close>

theorem saturation_ten_over_zero:
  "(\<forall>p r. mmal_port_parameter_set_rational p MMAL_PARAMETER_SATURATION r
            \<in> set (new_calls (set_camera_parameters hw b this) w) \<longrightarrow>
          p = component_control \<and> r = \<lparr>num = 10, den = 0\<rparr>)
   \<and> (mmal_status hw (calls w)
          (mmal_port_parameter_set component_control
             (MMAL_PARAMETER_AWBMODE_T MMAL_PARAM_AWBMODE_AUTO)) = MMAL_SUCCESS \<longrightarrow>
        new_calls (set_camera_parameters hw b this) w ! 1 =
          mmal_port_parameter_set_rational component_control MMAL_PARAMETER_SATURATION
            \<lparr>num = 10, den = 0\<rparr>)
   \<and> (fst (set_camera_parameters hw b this w) = Inr () \<longrightarrow>
        mmal_port_parameter_set_rational component_control MMAL_PARAMETER_SATURATION
          \<lparr>num = 10, den = 0\<rparr> \<in> set (new_calls (set_camera_parameters hw b this) w))"
proof (intro conjI)
  let ?P = "\<lambda>c. \<forall>p r. c = mmal_port_parameter_set_rational p MMAL_PARAMETER_SATURATION r \<longrightarrow>
               p = component_control \<and> r = \<lparr>num = 10, den = 0\<rparr>"
  have "only_calls ?P (set_camera_parameters hw b this)"
    by (rule only_calls_set_camera_parameters)
      (auto intro!: only_calls_exposure_time only_calls_exposure_ranges only_calls_gain_settings)
  from only_calls_new_calls(2)[OF this, of w]
  show "\<forall>p r. mmal_port_parameter_set_rational p MMAL_PARAMETER_SATURATION r
            \<in> set (new_calls (set_camera_parameters hw b this) w) \<longrightarrow>
          p = component_control \<and> r = \<lparr>num = 10, den = 0\<rparr>"
    by (auto simp: list_all_iff)
next
  show "mmal_status hw (calls w)
          (mmal_port_parameter_set component_control
             (MMAL_PARAMETER_AWBMODE_T MMAL_PARAM_AWBMODE_AUTO)) = MMAL_SUCCESS \<longrightarrow>
        new_calls (set_camera_parameters hw b this) w ! 1 =
          mmal_port_parameter_set_rational component_control MMAL_PARAMETER_SATURATION
            \<lparr>num = 10, den = 0\<rparr>"
  proof
    assume ok: "mmal_status hw (calls w)
          (mmal_port_parameter_set component_control
             (MMAL_PARAMETER_AWBMODE_T MMAL_PARAM_AWBMODE_AUTO)) = MMAL_SUCCESS"
    from set_camera_parameters_statements[of hw b this] obtain s1 s2 ms
      where eq: "set_camera_parameters hw b this = io_seq (s1 # s2 # ms)"
        and s1: "s1 = throw_if_mmal hw
                (mmal_port_parameter_set component_control
                   (MMAL_PARAMETER_AWBMODE_T MMAL_PARAM_AWBMODE_AUTO))
                ''Failed to set AWB mode''"
        and s2: "s2 = throw_if_mmal hw
                  (mmal_port_parameter_set_rational component_control MMAL_PARAMETER_SATURATION
                     \<lparr>num = 10, den = 0\<rparr>)
                  ''Failed to set saturation''"
        and only: "\<forall>m \<in> set ms. only_calls (\<lambda>_. True) m"
      by (fastforce intro: only_calls_blocks)
    have o1: "only_calls (\<lambda>_. True) s1" and o2: "only_calls (\<lambda>_. True) s2"
      unfolding s1 s2 by (auto intro: only_calls_throw_if_mmal)
    have step1: "new_calls (io_seq (s1 # s2 # ms)) w =
       new_calls s1 w @
         (case fst (s1 w) of Inl e \<Rightarrow> []
          | Inr x \<Rightarrow> new_calls (io_seq (s2 # ms)) (snd (s1 w)))"
      by (rule new_calls_io_seq_Cons[OF o1]) (use o2 only in simp)
    have step2: "new_calls (io_seq (s2 # ms)) (snd (s1 w)) =
       new_calls s2 (snd (s1 w)) @
         (case fst (s2 (snd (s1 w))) of Inl e \<Rightarrow> []
          | Inr x \<Rightarrow> new_calls (io_seq ms) (snd (s2 (snd (s1 w)))))"
      by (rule new_calls_io_seq_Cons[OF o2 only])
    have "fst (s1 w) = Inr ()" using ok by (simp add: s1 fst_throw_if_mmal)
    then have "new_calls (io_seq (s1 # s2 # ms)) w ! 1 =
          mmal_port_parameter_set_rational component_control MMAL_PARAMETER_SATURATION
            \<lparr>num = 10, den = 0\<rparr>"
      unfolding step1 step2 by (simp add: s1 s2 new_calls_throw_if_mmal)
    then show "new_calls (set_camera_parameters hw b this) w ! 1 =
          mmal_port_parameter_set_rational component_control MMAL_PARAMETER_SATURATION
            \<lparr>num = 10, den = 0\<rparr>"
      unfolding eq .
  qed
next
  show "fst (set_camera_parameters hw b this w) = Inr () \<longrightarrow>
        mmal_port_parameter_set_rational component_control MMAL_PARAMETER_SATURATION
          \<lparr>num = 10, den = 0\<rparr> \<in> set (new_calls (set_camera_parameters hw b this) w)"
  proof
    assume ok: "fst (set_camera_parameters hw b this w) = Inr ()"
    from set_camera_parameters_runs_blocks[OF ok, of "throw_if_mmal hw
                  (mmal_port_parameter_set_rational component_control MMAL_PARAMETER_SATURATION
                     \<lparr>num = 10, den = 0\<rparr>)
                  ''Failed to set saturation''"]
    obtain w' where "set (new_calls (throw_if_mmal hw
                  (mmal_port_parameter_set_rational component_control MMAL_PARAMETER_SATURATION
                     \<lparr>num = 10, den = 0\<rparr>)
                  ''Failed to set saturation'') w') \<subseteq> set (new_calls (set_camera_parameters hw b this) w)"
      by auto
    then show "mmal_port_parameter_set_rational component_control MMAL_PARAMETER_SATURATION
          \<lparr>num = 10, den = 0\<rparr> \<in> set (new_calls (set_camera_parameters hw b this) w)"
      by (simp add: new_calls_throw_if_mmal)
  qed
qed


lemma set_camera_parameters_succeeds_example:
  "fst (set_camera_parameters new_firmware example_build example_camera fresh_world) = Inr ()"
  by (simp add: set_camera_parameters_def exposure_ranges_def gain_settings_def get_fps_range_def
      exposure_time_def io_defs get_shutter_speed_def new_firmware_def example_camera_def
      fresh_world_def example_build_def)

theorem saturation_ten_over_zero_witness:
  "mmal_status new_firmware (calls fresh_world)
          (mmal_port_parameter_set component_control
             (MMAL_PARAMETER_AWBMODE_T MMAL_PARAM_AWBMODE_AUTO)) = MMAL_SUCCESS
   \<and> new_calls (set_camera_parameters new_firmware example_build example_camera) fresh_world ! 1 =
          mmal_port_parameter_set_rational component_control MMAL_PARAMETER_SATURATION
            \<lparr>num = 10, den = 0\<rparr>
   \<and> fst (set_camera_parameters new_firmware example_build example_camera fresh_world) = Inr ()
   \<and> mmal_port_parameter_set_rational component_control MMAL_PARAMETER_SATURATION
          \<lparr>num = 10, den = 0\<rparr>
        \<in> set (new_calls (set_camera_parameters new_firmware example_build example_camera) fresh_world)"
proof -
  have a: "mmal_status new_firmware (calls fresh_world)
          (mmal_port_parameter_set component_control
             (MMAL_PARAMETER_AWBMODE_T MMAL_PARAM_AWBMODE_AUTO)) = MMAL_SUCCESS"
    by (simp add: new_firmware_def)
  from saturation_ten_over_zero [of new_firmware example_build example_camera fresh_world]
    a set_camera_parameters_succeeds_example
  show ?thesis by simp
qed

section \<open>Runs through nested binds\<close>

lemma io_bind_InrE:
  assumes "io_bind m f w = (Inr y, w')"
  obtains x w1 where "m w = (Inr x, w1)" and "f x w1 = (Inr y, w')"
  using assms by (auto simp: io_bind_def split: prod.splits sum.splits)

lemma io_bind_throw_if_mmal:
  "io_bind (throw_if_mmal hw c t) f w =
     (if mmal_status hw (calls w) c = MMAL_SUCCESS then f () (w\<lparr>calls := calls w @ [c]\<rparr>)
      else (Inl (MMALException t), w\<lparr>calls := calls w @ [c]\<rparr>))"
  by (simp add: io_defs)

lemma io_bind_throw_if_read:
  "io_bind (\<lambda>w. throw_if (g w) t w) f w = (if g w then (Inl (MMALException t), w) else f () w)"
  by (simp add: io_defs)

lemma io_bind_Inl: "fst (m w) = Inl e \<Longrightarrow> fst (io_bind m f w) = Inl e"
  by (cases "m w") (simp add: io_bind_def)

lemma io_bind_Inr: "m w = (Inr x, w1) \<Longrightarrow> io_bind m f w = f x w1"
  by (simp add: io_bind_def)

lemma set_camera_parameters_succeeds_long_exposure:
  "fst (set_camera_parameters new_firmware example_build
          (example_camera\<lparr>shutter_speed := 7000000\<rparr>) fresh_world) = Inr ()"
  by (simp add: set_camera_parameters_def exposure_ranges_def gain_settings_def get_fps_range_def
      exposure_time_def io_defs get_shutter_speed_def new_firmware_def example_camera_def
      fresh_world_def example_build_def)

lemma constructor_succeeds_example:
  "fst (MMALCamera_constructor new_firmware example_build example_camera 0 fresh_world) =
     Inr example_camera"
  by (simp add: MMALCamera_constructor_def MMALComponent_constructor_def
      enable_port_with_callback_def get_sensor_info_def get_camera_info_def use_camera_info_def
      set_capture_port_format_def util_rgb_order_fixed_def get_fps_range_def io_defs Let_def
      new_firmware_def example_camera_def example_build_def imx477_def
      fresh_world_def)

section \<open>set\_camera\_parameters: frame-rate bounds\<close>

text \<open>A constructor that returns has made the frame-rate query as its last call, and the
  object holds the range the device wrote then.\<close>

lemma constructor_stores_default_fps_range:
  assumes "MMALCamera_constructor hw b this0 n w0 = (Inr this', w')"
  shows "\<exists>h. calls w' =
            h @ [mmal_port_parameter_get (component_output MMAL_CAMERA_CAPTURE_PORT)
                   MMAL_PARAMETER_FPS_RANGE 0]
          \<and> (fps_low this', fps_high this') =
              read_fps_range hw h
                (mmal_port_parameter_get (component_output MMAL_CAMERA_CAPTURE_PORT)
                   MMAL_PARAMETER_FPS_RANGE 0)"
  using assms unfolding MMALCamera_constructor_def Let_def
  by (auto elim!: io_bind_InrE
      simp: get_fps_range_def io_return_def throw_if_def fprintf_stderr_def mmal_def
      split: prod.splits if_splits)

lemma exposure_ranges_calls:
  assumes "bounds =
      (if 6000000 < unat (shutter_speed this) then
         (\<lparr>num = 5, den = 1000\<rparr>, \<lparr>num = 166, den = 1000\<rparr>)
       else if 1000000 < unat (shutter_speed this) then
         (\<lparr>num = 167, den = 1000\<rparr>, \<lparr>num = 999, den = 1000\<rparr>)
       else (fps_low this, fps_high this))"
    and "commit = mmal_port_parameter_set (component_output MMAL_CAMERA_CAPTURE_PORT)
                    (MMAL_PARAMETER_FPS_RANGE_T (fst bounds) (snd bounds))"
  shows "new_calls (exposure_ranges hw this) w =
           commit # (if mmal_status hw (calls w) commit = MMAL_SUCCESS
                     then [mmal_port_parameter_get (component_output MMAL_CAMERA_CAPTURE_PORT)
                             MMAL_PARAMETER_FPS_RANGE 0]
                     else [])"
proof -
  obtain low high where b: "bounds = (low, high)"
    by (cases bounds)
  have eq: "(if shutter_speed this > 6000000 then
               (\<lparr>num = 5, den = 1000\<rparr>, \<lparr>num = 166, den = 1000\<rparr>)
             else if shutter_speed this > 1000000 then
               (\<lparr>num = 167, den = 1000\<rparr>, \<lparr>num = 999, den = 1000\<rparr>)
             else (fps_low this, fps_high this)) = (low, high)"
    using assms(1) b by (simp add: word_less_nat_alt)
  show ?thesis
    unfolding exposure_ranges_def eq
    by (simp add: assms(2) b get_fps_range_def io_defs new_calls_def split: prod.splits)
qed

text \<open>
  C1. The frame-rate bounds handed to the capture port depend on the shutter speed (in
  microseconds, an unsigned 32-bit value) alone: above 6,000,000 they are 5/1000 and
  166/1000; above 1,000,000 and up to 6,000,000 they are 167/1000 and 999/1000; up to
  1,000,000 they are the object's \<open>fps_low\<close> and \<open>fps_high\<close>. The block "Exposure
  ranges" always makes that commit as its first call; every frame-rate commit of a run
  of \<open>set_camera_parameters\<close> is that one; a run that returns normally has made it.
  \<open>fps_low\<close> and \<open>fps_high\<close> of a constructed object are the range the device
  reported to the constructor's last call.
\<close>

theorem frame_rate_bounds_three_regimes:
  assumes "bounds =
      (if 6000000 < unat (shutter_speed this) then
         (\<lparr>num = 5, den = 1000\<rparr>, \<lparr>num = 166, den = 1000\<rparr>)
       else if 1000000 < unat (shutter_speed this) then
         (\<lparr>num = 167, den = 1000\<rparr>, \<lparr>num = 999, den = 1000\<rparr>)
       else (fps_low this, fps_high this))"
    and "commit = mmal_port_parameter_set (component_output MMAL_CAMERA_CAPTURE_PORT)
                    (MMAL_PARAMETER_FPS_RANGE_T (fst bounds) (snd bounds))"
  shows "new_calls (exposure_ranges hw this) w =
           commit # (if mmal_status hw (calls w) commit = MMAL_SUCCESS
                     then [mmal_port_parameter_get (component_output MMAL_CAMERA_CAPTURE_PORT)
                             MMAL_PARAMETER_FPS_RANGE 0]
                     else [])
     \<and> (\<forall>p low high.
           mmal_port_parameter_set p (MMAL_PARAMETER_FPS_RANGE_T low high)
             \<in> set (new_calls (set_camera_parameters hw b this) w) \<longrightarrow>
           mmal_port_parameter_set p (MMAL_PARAMETER_FPS_RANGE_T low high) = commit)
     \<and> (fst (set_camera_parameters hw b this w) = Inr () \<longrightarrow>
           commit \<in> set (new_calls (set_camera_parameters hw b this) w))
     \<and> (\<forall>this0 n w0 this'.
           fst (MMALCamera_constructor hw b this0 n w0) = Inr this' \<longrightarrow>
           (fps_low this', fps_high this') =
             read_fps_range hw (butlast (calls (snd (MMALCamera_constructor hw b this0 n w0))))
               (mmal_port_parameter_get (component_output MMAL_CAMERA_CAPTURE_PORT)
                  MMAL_PARAMETER_FPS_RANGE 0))"
proof (intro conjI allI impI)
  show "new_calls (exposure_ranges hw this) w =
           commit # (if mmal_status hw (calls w) commit = MMAL_SUCCESS
                     then [mmal_port_parameter_get (component_output MMAL_CAMERA_CAPTURE_PORT)
                             MMAL_PARAMETER_FPS_RANGE 0]
                     else [])"
    by (rule exposure_ranges_calls[OF assms])
next
  fix p low high
  assume mem: "mmal_port_parameter_set p (MMAL_PARAMETER_FPS_RANGE_T low high)
             \<in> set (new_calls (set_camera_parameters hw b this) w)"
  let ?P = "\<lambda>c. \<forall>p low high. c = mmal_port_parameter_set p (MMAL_PARAMETER_FPS_RANGE_T low high)
               \<longrightarrow> c = commit"
  have "only_calls ?P (exposure_ranges hw this)"
    by (rule only_calls_exposure_ranges) (auto simp: assms word_less_nat_alt split: if_splits)
  then have "only_calls ?P (set_camera_parameters hw b this)"
    by (intro only_calls_set_camera_parameters only_calls_exposure_time only_calls_gain_settings)
      auto
  from only_calls_new_calls(2)[OF this, of w] mem
  show "mmal_port_parameter_set p (MMAL_PARAMETER_FPS_RANGE_T low high) = commit"
    by (auto simp: list_all_iff)
next
  assume ok: "fst (set_camera_parameters hw b this w) = Inr ()"
  from set_camera_parameters_runs_blocks[OF ok, of "exposure_ranges hw this"]
  obtain w' where "set (new_calls (exposure_ranges hw this) w')
      \<subseteq> set (new_calls (set_camera_parameters hw b this) w)"
    by auto
  then show "commit \<in> set (new_calls (set_camera_parameters hw b this) w)"
    unfolding exposure_ranges_calls[OF assms] by simp
next
  fix this0 n w0 this'
  assume ok: "fst (MMALCamera_constructor hw b this0 n w0) = Inr this'"
  then have "MMALCamera_constructor hw b this0 n w0 =
      (Inr this', snd (MMALCamera_constructor hw b this0 n w0))"
    by (simp add: prod_eq_iff)
  from constructor_stores_default_fps_range[OF this]
  show "(fps_low this', fps_high this') =
             read_fps_range hw (butlast (calls (snd (MMALCamera_constructor hw b this0 n w0))))
               (mmal_port_parameter_get (component_output MMAL_CAMERA_CAPTURE_PORT)
                  MMAL_PARAMETER_FPS_RANGE 0)"
    by auto
qed

theorem frame_rate_bounds_three_regimes_witness:
  "new_calls (exposure_ranges new_firmware (example_camera\<lparr>shutter_speed := 7000000\<rparr>))
      fresh_world =
     [mmal_port_parameter_set (component_output MMAL_CAMERA_CAPTURE_PORT)
        (MMAL_PARAMETER_FPS_RANGE_T \<lparr>num = 5, den = 1000\<rparr> \<lparr>num = 166, den = 1000\<rparr>),
      mmal_port_parameter_get (component_output MMAL_CAMERA_CAPTURE_PORT)
        MMAL_PARAMETER_FPS_RANGE 0]
   \<and> new_calls (exposure_ranges new_firmware (example_camera\<lparr>shutter_speed := 2000000\<rparr>))
      fresh_world =
     [mmal_port_parameter_set (component_output MMAL_CAMERA_CAPTURE_PORT)
        (MMAL_PARAMETER_FPS_RANGE_T \<lparr>num = 167, den = 1000\<rparr> \<lparr>num = 999, den = 1000\<rparr>),
      mmal_port_parameter_get (component_output MMAL_CAMERA_CAPTURE_PORT)
        MMAL_PARAMETER_FPS_RANGE 0]
   \<and> new_calls (exposure_ranges new_firmware (example_camera\<lparr>shutter_speed := 500000\<rparr>))
      fresh_world =
     [mmal_port_parameter_set (component_output MMAL_CAMERA_CAPTURE_PORT)
        (MMAL_PARAMETER_FPS_RANGE_T (fps_low example_camera) (fps_high example_camera)),
      mmal_port_parameter_get (component_output MMAL_CAMERA_CAPTURE_PORT)
        MMAL_PARAMETER_FPS_RANGE 0]
   \<and> fst (set_camera_parameters new_firmware example_build
            (example_camera\<lparr>shutter_speed := 7000000\<rparr>) fresh_world) = Inr ()
   \<and> mmal_port_parameter_set (component_output MMAL_CAMERA_CAPTURE_PORT)
        (MMAL_PARAMETER_FPS_RANGE_T \<lparr>num = 5, den = 1000\<rparr> \<lparr>num = 166, den = 1000\<rparr>)
      \<in> set (new_calls (set_camera_parameters new_firmware example_build
                 (example_camera\<lparr>shutter_speed := 7000000\<rparr>)) fresh_world)
   \<and> fst (MMALCamera_constructor new_firmware example_build example_camera 0 fresh_world) =
       Inr example_camera
   \<and> (fps_low example_camera, fps_high example_camera) =
       read_fps_range new_firmware
         (butlast (calls (snd (MMALCamera_constructor new_firmware example_build example_camera 0
                                 fresh_world))))
         (mmal_port_parameter_get (component_output MMAL_CAMERA_CAPTURE_PORT)
            MMAL_PARAMETER_FPS_RANGE 0)"
proof -
  have s: "shutter_speed (example_camera\<lparr>shutter_speed := x\<rparr>) = x"
    and f: "fps_low (example_camera\<lparr>shutter_speed := x\<rparr>) = fps_low example_camera"
      "fps_high (example_camera\<lparr>shutter_speed := x\<rparr>) = fps_high example_camera" for x
    by simp_all
  have st: "mmal_status new_firmware h
      (mmal_port_parameter_set (component_output MMAL_CAMERA_CAPTURE_PORT) p) = MMAL_SUCCESS" for h p
    by (simp add: new_firmware_def)
  from frame_rate_bounds_three_regimes [OF refl refl,
      of new_firmware "example_camera\<lparr>shutter_speed := 7000000\<rparr>" fresh_world example_build]
    frame_rate_bounds_three_regimes [OF refl refl,
      of new_firmware "example_camera\<lparr>shutter_speed := 2000000\<rparr>" fresh_world example_build]
    frame_rate_bounds_three_regimes [OF refl refl,
      of new_firmware "example_camera\<lparr>shutter_speed := 500000\<rparr>" fresh_world example_build]
    set_camera_parameters_succeeds_long_exposure constructor_succeeds_example
  show ?thesis
    by (simp add: s f st)
qed

section \<open>set\_camera\_parameters: the shutter-speed tolerance\<close>

text \<open>What the block "Exposure time" does, whatever the device answers. Its outcome
  depends on the two statuses only: the warning never ends the run.\<close>

lemma exposure_time_run:
  assumes "set_speed = mmal_port_parameter_set_uint32 component_control
                         MMAL_PARAMETER_SHUTTER_SPEED (shutter_speed this)"
    and "get_speed = mmal_port_parameter_get_uint32 component_control MMAL_PARAMETER_SHUTTER_SPEED"
    and "actual = read_uint32 hw (calls w @ [set_speed]) get_speed"
  shows "exposure_time hw this w =
     (if mmal_status hw (calls w) set_speed \<noteq> MMAL_SUCCESS then
        (Inl (MMALException ''Failed to set shutter speed''), w\<lparr>calls := calls w @ [set_speed]\<rparr>)
      else if mmal_status hw (calls w @ [set_speed]) get_speed \<noteq> MMAL_SUCCESS then
        (Inl (MMALException ''Failed to get shutter speed''),
         w\<lparr>calls := calls w @ [set_speed, get_speed]\<rparr>)
      else
        (Inr (),
         w\<lparr>calls := calls w @ [set_speed, get_speed],
           stderr := stderr w @
             (if actual < shutter_speed this - 100000 \<or> actual > shutter_speed this + 100000
              then [failed_to_set_shutter_speed (shutter_speed this) actual] else [])\<rparr>))"
  unfolding assms by (simp add: exposure_time_def get_shutter_speed_def io_defs)

lemma tolerance_without_wrap_around:
  fixes S r :: "32 word"
  assumes "100000 \<le> uint S" and "uint S + 100000 < 2 ^ 32"
  shows "(r < S - 100000 \<or> r > S + 100000) \<longleftrightarrow> 100000 < \<bar>uint r - uint S\<bar>"
proof -
  have sub: "uint (S - 100000) = uint S - 100000"
    using assms(1) by (simp add: uint_sub_if')
  have add: "uint (S + 100000) = uint S + 100000"
    using assms(2) by (simp add: uint_plus_if')
  show ?thesis
    unfolding word_less_alt sub add by linarith
qed

text \<open>
  C2, at a requested shutter speed of 50000 microseconds that reads back as 50000: the
  difference is zero, yet the warning is printed, because \<open>50000 - 100000\<close> wraps
  around to 4294917296 and the value read back is below it. The run goes on and returns
  normally. (Lemma \<open>tolerance_without_wrap_around\<close> above shows the comparison is the
  distance test the claim states for requests from 100000 up to \<open>2^32 - 100001\<close>.)
\<close>

theorem shutter_tolerance_wraps_below_100000:
  "shutter_speed example_camera = 50000
   \<and> read_uint32 new_firmware
        [mmal_port_parameter_set_uint32 component_control MMAL_PARAMETER_SHUTTER_SPEED 50000]
        (mmal_port_parameter_get_uint32 component_control MMAL_PARAMETER_SHUTTER_SPEED) = 50000
   \<and> shutter_speed example_camera - 100000 = 4294917296
   \<and> new_stderr (exposure_time new_firmware example_camera) fresh_world =
        [failed_to_set_shutter_speed 50000 50000]
   \<and> fst (set_camera_parameters new_firmware example_build example_camera fresh_world) = Inr ()
   \<and> failed_to_set_shutter_speed 50000 50000
        \<in> set (new_stderr (set_camera_parameters new_firmware example_build example_camera)
                 fresh_world)"
  by (simp add: set_camera_parameters_def exposure_ranges_def gain_settings_def get_fps_range_def
      exposure_time_def io_defs get_shutter_speed_def new_firmware_def example_camera_def
      fresh_world_def example_build_def new_stderr_def)

section \<open>set\_camera\_parameters: analog gain\<close>

lemma double_value_power_int: "double_value (Finite m e) = of_int m * 2 powi e"
  by (simp add: power_int_def field_simps power_inverse)

lemma double_value_times_65536:
  "double_value (times_65536 (Finite m e)) = double_value (Finite m e) * 65536"
proof -
  have "(2::rat) powi (e + 16) = 2 powi e * 2 powi 16"
    by (rule power_int_add) simp
  also have "(2::rat) powi 16 = 65536"
    by (simp add: power_int_def)
  finally show ?thesis
    unfolding times_65536.simps double_value_power_int by simp
qed

lemma truncate_nonneg: "0 \<le> m \<Longrightarrow> double_trunc (Finite m e) = \<lfloor>double_value (Finite m e)\<rfloor>"
proof (cases "0 \<le> e")
  case True
  then have "double_value (Finite m e) = of_int (m * 2 ^ nat e)" by simp
  with True show ?thesis by (simp del: double_value.simps of_int_mult of_int_power)
next
  case False
  assume m: "0 \<le> m"
  have "\<lfloor>(of_int m :: rat) / of_int (2 ^ nat (- e))\<rfloor> = m div 2 ^ nat (- e)"
    by (rule floor_divide_of_int_eq)
  with False m show ?thesis
    by (cases "m = 0") simp_all
qed

lemma double_value_pos_iff: "0 < double_value (Finite m e) \<longleftrightarrow> 0 < m"
  by (simp add: zero_less_mult_iff zero_less_divide_iff)

lemma gain_settings_calls:
  assumes "gain this = Finite m e" and "0 < double_value (gain this)"
    and "\<lfloor>double_value (gain this) * 65536\<rfloor> < 2 ^ 31"
  shows "static_cast_int32 (times_65536 (gain this)) = Some \<lfloor>double_value (gain this) * 65536\<rfloor>"
proof -
  from assms(1,2) have m: "0 < m" by (simp only: double_value_pos_iff)
  then have t: "double_trunc (Finite m (e + 16)) = \<lfloor>double_value (gain this) * 65536\<rfloor>"
    using truncate_nonneg[of m "e + 16"] double_value_times_65536[of m e] assms(1)
    by (simp del: double_value.simps double_trunc.simps)
  have "0 \<le> \<lfloor>double_value (gain this) * 65536\<rfloor>"
    using assms(2) by simp
  with t assms(3) show ?thesis
    unfolding assms(1) by (simp del: double_value.simps double_trunc.simps)
qed

text \<open>A gain of \<open>262147 / 2^18\<close> (about 1.0000114): \<open>gain * 65536\<close> is 65536.75,
  which rounds to 65537, and the numerator handed to the device is 65536.\<close>

theorem analog_gain_rounded_counterexample:
  "0 < double_value (Finite 262147 (- 18))
   \<and> new_calls (gain_settings new_firmware (example_camera\<lparr>gain := Finite 262147 (- 18)\<rparr>))
        fresh_world =
       [mmal_port_parameter_set_rational component_control MMAL_PARAMETER_ANALOG_GAIN
          \<lparr>num = 65536, den = 65536\<rparr>]
   \<and> round (double_value (Finite 262147 (- 18)) * 65536) = 65537"
proof (intro conjI)
  show "0 < double_value (Finite 262147 (- 18))" by simp
  show "new_calls (gain_settings new_firmware (example_camera\<lparr>gain := Finite 262147 (- 18)\<rparr>))
        fresh_world =
       [mmal_port_parameter_set_rational component_control MMAL_PARAMETER_ANALOG_GAIN
          \<lparr>num = 65536, den = 65536\<rparr>]"
    by (simp add: gain_settings_def io_defs new_calls_def new_firmware_def example_camera_def
        fresh_world_def)
  have "double_value (Finite 262147 (- 18)) * 65536 = 262147 / 4" by simp
  moreover have "round ((262147::rat) / 4) = 65537" by (rule round_unique) simp_all
  ultimately show "round (double_value (Finite 262147 (- 18)) * 65536) = 65537"
    by (simp only:)
qed

text \<open>
  C3, as the code has it. For every finite positive gain \<open>g\<close> with \<open>g * 65536\<close> below
  \<open>2^31\<close>, the analog gain handed to the control port is the rational with
  denominator 65536 and numerator \<open>g * 65536\<close> with its fractional part discarded (the
  floor, not the nearest integer). The block "Gain settings" makes exactly that call;
  every analog-gain call of a run of \<open>set_camera_parameters\<close> is that one; a run that
  returns normally has made it.
\<close>

theorem analog_gain_truncated:
  assumes "gain this = Finite m e" and "0 < double_value (gain this)"
    and "\<lfloor>double_value (gain this) * 65536\<rfloor> < 2 ^ 31"
    and "commit = mmal_port_parameter_set_rational component_control MMAL_PARAMETER_ANALOG_GAIN
                    \<lparr>num = \<lfloor>double_value (gain this) * 65536\<rfloor>, den = 65536\<rparr>"
  shows "new_calls (gain_settings hw this) w = [commit]
     \<and> (\<forall>p r. mmal_port_parameter_set_rational p MMAL_PARAMETER_ANALOG_GAIN r
                 \<in> set (new_calls (set_camera_parameters hw b this) w) \<longrightarrow>
               mmal_port_parameter_set_rational p MMAL_PARAMETER_ANALOG_GAIN r = commit)
     \<and> (fst (set_camera_parameters hw b this w) = Inr () \<longrightarrow>
           commit \<in> set (new_calls (set_camera_parameters hw b this) w))"
proof (intro conjI allI impI)
  note cast = gain_settings_calls[OF assms(1-3)]
  show block: "new_calls (gain_settings hw this) w = [commit]" for w
    unfolding assms(4) by (simp add: gain_settings_def cast io_defs new_calls_def)
  {
    fix p r
    assume mem: "mmal_port_parameter_set_rational p MMAL_PARAMETER_ANALOG_GAIN r
                 \<in> set (new_calls (set_camera_parameters hw b this) w)"
    let ?P = "\<lambda>c. \<forall>p r. c = mmal_port_parameter_set_rational p MMAL_PARAMETER_ANALOG_GAIN r
                 \<longrightarrow> c = commit"
    have "only_calls ?P (gain_settings hw this)"
      by (rule only_calls_gain_settings) (simp add: cast assms(4))
    then have "only_calls ?P (set_camera_parameters hw b this)"
      by (intro only_calls_set_camera_parameters only_calls_exposure_time
          only_calls_exposure_ranges) auto
    from only_calls_new_calls(2)[OF this, of w] mem
    show "mmal_port_parameter_set_rational p MMAL_PARAMETER_ANALOG_GAIN r = commit"
      by (auto simp: list_all_iff)
  }
  {
    assume ok: "fst (set_camera_parameters hw b this w) = Inr ()"
    from set_camera_parameters_runs_blocks[OF ok, of "gain_settings hw this"]
    obtain w' where "set (new_calls (gain_settings hw this) w')
        \<subseteq> set (new_calls (set_camera_parameters hw b this) w)"
      by auto
    then show "commit \<in> set (new_calls (set_camera_parameters hw b this) w)"
      unfolding block by simp
  }
qed

theorem analog_gain_truncated_witness:
  "gain example_camera = Finite 1 1
   \<and> double_value (gain example_camera) = 2
   \<and> new_calls (gain_settings new_firmware example_camera) fresh_world =
       [mmal_port_parameter_set_rational component_control MMAL_PARAMETER_ANALOG_GAIN
          \<lparr>num = 131072, den = 65536\<rparr>]
   \<and> fst (set_camera_parameters new_firmware example_build example_camera fresh_world) = Inr ()
   \<and> mmal_port_parameter_set_rational component_control MMAL_PARAMETER_ANALOG_GAIN
          \<lparr>num = 131072, den = 65536\<rparr>
       \<in> set (new_calls (set_camera_parameters new_firmware example_build example_camera)
                fresh_world)"
proof -
  have g: "gain example_camera = Finite 1 1" by (simp add: example_camera_def)
  have v: "double_value (gain example_camera) = 2" by (simp add: g)
  have pos: "0 < double_value (gain example_camera)" by (simp add: v)
  have fl: "\<lfloor>double_value (gain example_camera) * 65536\<rfloor> = 131072" by (simp add: v)
  have small: "\<lfloor>double_value (gain example_camera) * 65536\<rfloor> < 2 ^ 31" by (simp add: fl)
  from analog_gain_truncated [OF g pos small refl, of new_firmware fresh_world example_build]
    set_camera_parameters_succeeds_example g v
  show ?thesis by (simp add: fl)
qed

section \<open>get\_sensor\_info: the camera-info component\<close>

text \<open>A call that returns has destroyed the camera-info component as its last step; a
  call that leaves abruptly has not destroyed it.\<close>

lemma get_sensor_info_destroys_on_return:
  "fst (get_sensor_info hw b this w) = Inr this' \<Longrightarrow>
   last (calls (snd (get_sensor_info hw b this w))) = mmal_component_destroy camera_info"
  by (auto simp: get_sensor_info_def get_camera_info_def use_camera_info_def io_defs Let_def
      split: if_splits prod.splits sum.splits)

lemma get_sensor_info_no_destroy_on_throw:
  "fst (get_sensor_info hw b this w) = Inl e \<Longrightarrow>
   mmal_component_destroy camera_info \<notin> set (new_calls (get_sensor_info hw b this) w)"
  by (auto simp: get_sensor_info_def get_camera_info_def use_camera_info_def io_defs Let_def
      new_calls_def split: if_splits prod.splits sum.splits)

text \<open>
  C6, on the two failing paths, each on a device that creates the camera-info component.
  With one sensor and camera number 1, the call leaves with "Camera number not found.";
  on a device that refuses both camera-info queries it leaves with "Failed to get camera
  parameters.". In both runs the calls made are the creation of the camera-info
  component and the two queries: \<^verbatim>\<open>mmal_component_destroy\<close> is not called.
\<close>

theorem probe_not_destroyed_on_failure:
  "mmal_status new_firmware [] (mmal_component_create MMAL_COMPONENT_DEFAULT_CAMERA_INFO) =
     MMAL_SUCCESS
   \<and> get_sensor_info new_firmware example_build (example_camera\<lparr>cameraNum := 1\<rparr>) fresh_world =
     (Inl (MMALException ''Camera number not found.''),
      \<lparr>calls = [mmal_component_create MMAL_COMPONENT_DEFAULT_CAMERA_INFO,
                 mmal_port_parameter_get component_control MMAL_PARAMETER_CAMERA_INFO 4,
                 mmal_port_parameter_get camera_info_control MMAL_PARAMETER_CAMERA_INFO 0],
       stderr = []\<rparr>)
   \<and> mmal_status probe_failing_firmware []
       (mmal_component_create MMAL_COMPONENT_DEFAULT_CAMERA_INFO) = MMAL_SUCCESS
   \<and> get_sensor_info probe_failing_firmware example_build example_camera fresh_world =
     (Inl (MMALException ''Failed to get camera parameters.''),
      \<lparr>calls = [mmal_component_create MMAL_COMPONENT_DEFAULT_CAMERA_INFO,
                 mmal_port_parameter_get component_control MMAL_PARAMETER_CAMERA_INFO 4,
                 mmal_port_parameter_get camera_info_control MMAL_PARAMETER_CAMERA_INFO 0],
       stderr = []\<rparr>)"
  by (simp add: get_sensor_info_def get_camera_info_def use_camera_info_def io_defs
      new_firmware_def Let_def probe_failing_firmware_def example_camera_def example_build_def
      fresh_world_def imx477_def)

section \<open>set\_capture\_port\_format\<close>

text \<open>The capture port's format asks for RGB24 and the RGB order is not fixed: the
  format committed is the opaque one, not BGR24.\<close>

theorem opaque_committed_for_rgb24_counterexample:
  "encoding (port_format new_firmware (calls fresh_world)
               (component_output MMAL_CAMERA_CAPTURE_PORT)) = MMAL_ENCODING_RGB24
   \<and> \<not> rgb_order_fixed new_firmware (calls fresh_world) (component_output MMAL_CAMERA_CAPTURE_PORT)
   \<and> new_calls (set_capture_port_format new_firmware example_camera) fresh_world =
       [mmal_util_rgb_order_fixed (component_output MMAL_CAMERA_CAPTURE_PORT),
        mmal_port_format_commit (component_output MMAL_CAMERA_CAPTURE_PORT)
          \<lparr>encoding = MMAL_ENCODING_OPAQUE, encoding_variant = 0,
           video_width = 4056, video_height = 3040,
           video_crop = \<lparr>rect_x = 0, rect_y = 0, rect_width = 4056, rect_height = 3040\<rparr>,
           video_frame_rate = \<lparr>num = 0, den = 1\<rparr>,
           video_par = \<lparr>num = 1, den = 1\<rparr>\<rparr>]
   \<and> MMAL_ENCODING_OPAQUE \<noteq> MMAL_ENCODING_BGR24"
  by (simp add: set_capture_port_format_def util_rgb_order_fixed_def io_defs new_calls_def
      new_firmware_def example_camera_def fresh_world_def rgb24_format_def
      MMAL_ENCODING_OPAQUE_def MMAL_ENCODING_RGB24_def MMAL_ENCODING_BGR24_def)

text \<open>
  C7, as the code has it. Whatever encoding the capture port's format held before and
  whether or not the sensor reports a fixed RGB order, \<open>set_capture_port_format\<close>
  asks for the RGB order and then commits a format whose encoding is the opaque one with
  variant 0. The exchange of RGB24 and BGR24 is applied to the encoding after the opaque
  default has been stored, so it never changes anything.
\<close>

theorem capture_port_format_always_opaque:
  "\<exists>format. new_calls (set_capture_port_format hw this) w =
       [mmal_util_rgb_order_fixed (component_output MMAL_CAMERA_CAPTURE_PORT),
        mmal_port_format_commit (component_output MMAL_CAMERA_CAPTURE_PORT) format]
     \<and> encoding format = MMAL_ENCODING_OPAQUE
     \<and> encoding_variant format = 0
     \<and> encoding format \<noteq> MMAL_ENCODING_RGB24
     \<and> encoding format \<noteq> MMAL_ENCODING_BGR24"
  by (simp add: set_capture_port_format_def util_rgb_order_fixed_def io_defs new_calls_def
      MMAL_ENCODING_OPAQUE_def MMAL_ENCODING_RGB24_def MMAL_ENCODING_BGR24_def Let_def)

section \<open>The constructor: selecting the sensor\<close>

lemma le_word_of_int_iff:
  fixes c :: "32 word"
  assumes "0 \<le> n" and "n < 2 ^ 32"
  shows "c \<le> word_of_int n \<longleftrightarrow> uint c \<le> n"
proof -
  have "uint (word_of_int n :: 32 word) = n"
    using assms by (simp add: uint_word_of_int_eq take_bit_int_eq_self)
  then show ?thesis by (simp add: word_le_def)
qed

lemma get_sensor_info_probe:
  assumes "create_info = mmal_component_create MMAL_COMPONENT_DEFAULT_CAMERA_INFO"
    and "undersized = mmal_port_parameter_get component_control MMAL_PARAMETER_CAMERA_INFO 4"
    and "probe = mmal_port_parameter_get camera_info_control MMAL_PARAMETER_CAMERA_INFO 0"
    and "mmal_status hw (calls w) create_info = MMAL_SUCCESS"
    and "mmal_status hw (calls w @ [create_info]) undersized \<noteq> MMAL_SUCCESS"
    and "mmal_status hw (calls w @ [create_info, undersized]) probe = MMAL_SUCCESS"
    and "info = read_camera_info hw (calls w @ [create_info, undersized]) probe"
  shows "get_sensor_info hw b this w =
     (if num_cameras info \<le> word_of_int (cameraNum this) then
        (Inl (MMALException ''Camera number not found.''),
         w\<lparr>calls := calls w @ [create_info, undersized, probe]\<rparr>)
      else if 0 \<le> cameraNum this \<and> nat (cameraNum this) < length (cameras info) then
        (Inr (this\<lparr>cameraName :=
                      take (sizeof_cameraName b - 1)
                        (camera_name (cameras info ! nat (cameraNum this))),
                    width := max_width (cameras info ! nat (cameraNum this)),
                    height := max_height (cameras info ! nat (cameraNum this))\<rparr>),
         w\<lparr>calls := calls w @ [create_info, undersized, probe,
                                mmal_component_destroy camera_info]\<rparr>)
      else (Inl UndefinedBehaviour, w\<lparr>calls := calls w @ [create_info, undersized, probe]\<rparr>))"
  using assms(4,5,6) unfolding assms(1,2,3,7)
  by (simp add: get_sensor_info_def get_camera_info_def use_camera_info_def io_defs Let_def)

lemma constructor_reaches_get_sensor_info:
  assumes "create = mmal_component_create MMAL_COMPONENT_DEFAULT_CAMERA"
    and "select = mmal_port_parameter_set component_control
                    (MMAL_PARAMETER_INT32_T MMAL_PARAMETER_CAMERA_NUM n)"
    and "sensor_mode = mmal_port_parameter_set_uint32 component_control
                         MMAL_PARAMETER_CAMERA_CUSTOM_SENSOR_CONFIG 0"
    and "enable = mmal_port_enable component_control"
    and "mmal_status hw (calls w) create = MMAL_SUCCESS"
    and "mmal_status hw (calls w @ [create]) select = MMAL_SUCCESS"
    and "output_num hw (calls w @ [create, select]) \<noteq> 0"
    and "mmal_status hw (calls w @ [create, select]) sensor_mode = MMAL_SUCCESS"
    and "mmal_status hw (calls w @ [create, select, sensor_mode]) enable = MMAL_SUCCESS"
    and "w1 = w\<lparr>calls := calls w @ [create, select, sensor_mode, enable]\<rparr>"
  shows "fst (get_sensor_info hw b (this\<lparr>cameraNum := n\<rparr>) w1) = Inl e \<Longrightarrow>
           fst (MMALCamera_constructor hw b this n w) = Inl e"
    and "get_sensor_info hw b (this\<lparr>cameraNum := n\<rparr>) w1 = (Inr this2, w2) \<Longrightarrow>
         fst (MMALCamera_constructor hw b this n w) = Inr this' \<Longrightarrow>
           cameraName this' = cameraName this2 \<and> width this' = width this2
           \<and> height this' = height this2"
proof -
  have start: "MMALCamera_constructor hw b this n w =
      io_bind (get_sensor_info hw b (this\<lparr>cameraNum := n\<rparr>))
        (\<lambda>this2.
     io_bind (throw_if_mmal hw
                (mmal_port_parameter_set component_control
                   (MMAL_PARAMETER_CAMERA_CONFIG_T
                      \<lparr>max_stills_w = width this2,
                       max_stills_h = height this2,
                       stills_yuv422 = 0,
                       one_shot_stills = 1,
                       max_preview_video_w = 1024,
                       max_preview_video_h = 768,
                       num_preview_video_frames = 1,
                       stills_capture_circular_buffer_height = 0,
                       fast_preview_resume = 0,
                       use_stc_timestamp = MMAL_PARAM_TIMESTAMP_MODE_RESET_STC\<rparr>))
                ''Failed to set camera config'') (\<lambda>_.
     io_bind (set_capture_port_format hw this2) (\<lambda>_.
     io_bind (get_fps_range hw (component_output MMAL_CAMERA_CAPTURE_PORT))
       (\<lambda>(status, fps_range_low, fps_range_high).
     io_bind (throw_if (to_bool status) ''Failed to get FPS range'') (\<lambda>_.
     let this3 = this2\<lparr>fps_low := fps_range_low, fps_high := fps_range_high\<rparr> in
     io_bind (fprintf_stderr (fps_low_high (fps_low this3) (fps_high this3))) (\<lambda>_.
     io_return this3)))))) w1"
    using assms(5-9) unfolding assms(1-4,10)
      MMALCamera_constructor_def MMALComponent_constructor_def enable_port_with_callback_def
    by (simp add: io_bind_throw_if_mmal io_bind_throw_if_read Let_def)
  show "fst (get_sensor_info hw b (this\<lparr>cameraNum := n\<rparr>) w1) = Inl e \<Longrightarrow>
           fst (MMALCamera_constructor hw b this n w) = Inl e"
    unfolding start by (rule io_bind_Inl)
  show "get_sensor_info hw b (this\<lparr>cameraNum := n\<rparr>) w1 = (Inr this2, w2) \<Longrightarrow>
         fst (MMALCamera_constructor hw b this n w) = Inr this' \<Longrightarrow>
           cameraName this' = cameraName this2 \<and> width this' = width this2
           \<and> height this' = height this2"
  proof -
    assume g: "get_sensor_info hw b (this\<lparr>cameraNum := n\<rparr>) w1 = (Inr this2, w2)"
      and ok: "fst (MMALCamera_constructor hw b this n w) = Inr this'"
    from ok obtain w' where "MMALCamera_constructor hw b this n w = (Inr this', w')"
      by (cases "MMALCamera_constructor hw b this n w") simp
    then show ?thesis
      unfolding start
        io_bind_Inr[where m = "get_sensor_info hw b (this\<lparr>cameraNum := n\<rparr>)" and w = w1, OF g]
        Let_def
      by (auto elim!: io_bind_InrE simp: io_return_def split: prod.splits)
  qed
qed

text \<open>
  C8. Let the first four calls of the constructor succeed and the component have an
  output port, so that \<open>get_sensor_info\<close> is reached; let the camera-info component be
  created and the undersized query on the camera's own control port fail, so that the
  camera-info component is consulted, and let that query succeed with the report
  \<open>info\<close>. If the camera number \<open>n\<close> is at least the reported count,
  \<open>get_sensor_info\<close> and with it the constructor leave with "Camera number not
  found.". If \<open>0 \<le> n\<close> is below the count (and the count does not exceed the
  \<open>cameras\<close> array), \<open>get_sensor_info\<close> returns the object with that sensor's name
  (the whole name when it fits the name buffer) and its maximum width and height, and a
  constructor that returns has kept them: the width and the height of the object are
  those of the sensor, non-zero as the sensor's are.
\<close>

theorem sensor_selection_by_index:
  assumes "create = mmal_component_create MMAL_COMPONENT_DEFAULT_CAMERA"
    and "select = mmal_port_parameter_set component_control
                    (MMAL_PARAMETER_INT32_T MMAL_PARAMETER_CAMERA_NUM n)"
    and "sensor_mode = mmal_port_parameter_set_uint32 component_control
                         MMAL_PARAMETER_CAMERA_CUSTOM_SENSOR_CONFIG 0"
    and "enable = mmal_port_enable component_control"
    and "mmal_status hw (calls w) create = MMAL_SUCCESS"
    and "mmal_status hw (calls w @ [create]) select = MMAL_SUCCESS"
    and "output_num hw (calls w @ [create, select]) \<noteq> 0"
    and "mmal_status hw (calls w @ [create, select]) sensor_mode = MMAL_SUCCESS"
    and "mmal_status hw (calls w @ [create, select, sensor_mode]) enable = MMAL_SUCCESS"
    and "w1 = w\<lparr>calls := calls w @ [create, select, sensor_mode, enable]\<rparr>"
    and "create_info = mmal_component_create MMAL_COMPONENT_DEFAULT_CAMERA_INFO"
    and "undersized = mmal_port_parameter_get component_control MMAL_PARAMETER_CAMERA_INFO 4"
    and "probe = mmal_port_parameter_get camera_info_control MMAL_PARAMETER_CAMERA_INFO 0"
    and "mmal_status hw (calls w1) create_info = MMAL_SUCCESS"
    and "mmal_status hw (calls w1 @ [create_info]) undersized \<noteq> MMAL_SUCCESS"
    and "mmal_status hw (calls w1 @ [create_info, undersized]) probe = MMAL_SUCCESS"
    and "info = read_camera_info hw (calls w1 @ [create_info, undersized]) probe"
    and "sensor = cameras info ! nat n"
  shows
    "(uint (num_cameras info) \<le> n \<and> n < 2 ^ 31 \<longrightarrow>
        fst (get_sensor_info hw b (this\<lparr>cameraNum := n\<rparr>) w1) =
          Inl (MMALException ''Camera number not found.'')
        \<and> fst (MMALCamera_constructor hw b this n w) =
          Inl (MMALException ''Camera number not found.''))
     \<and> (0 \<le> n \<and> n < uint (num_cameras info) \<and> unat (num_cameras info) \<le> length (cameras info) \<longrightarrow>
        fst (get_sensor_info hw b (this\<lparr>cameraNum := n\<rparr>) w1) =
          Inr (this\<lparr>cameraNum := n,
                   cameraName := take (sizeof_cameraName b - 1) (camera_name sensor),
                   width := max_width sensor,
                   height := max_height sensor\<rparr>)
        \<and> (\<forall>this'. fst (MMALCamera_constructor hw b this n w) = Inr this' \<longrightarrow>
              cameraName this' = take (sizeof_cameraName b - 1) (camera_name sensor)
              \<and> (length (camera_name sensor) < sizeof_cameraName b \<longrightarrow>
                    cameraName this' = camera_name sensor)
              \<and> width this' = max_width sensor
              \<and> height this' = max_height sensor
              \<and> (max_width sensor \<noteq> 0 \<and> max_height sensor \<noteq> 0 \<longrightarrow>
                    width this' \<noteq> 0 \<and> height this' \<noteq> 0)))"
proof (intro conjI impI)
  note run = get_sensor_info_probe[OF assms(11-17), of b "this\<lparr>cameraNum := n\<rparr>"]
  note ctor = constructor_reaches_get_sensor_info[OF assms(1-10), of b this]
  {
    assume "uint (num_cameras info) \<le> n \<and> n < 2 ^ 31"
    then have "num_cameras info \<le> word_of_int n"
      using le_word_of_int_iff[of n "num_cameras info"] uint_ge_0[of "num_cameras info"]
      by simp
    then show fail: "fst (get_sensor_info hw b (this\<lparr>cameraNum := n\<rparr>) w1) =
          Inl (MMALException ''Camera number not found.'')"
      unfolding run by simp
    then show "fst (MMALCamera_constructor hw b this n w) =
          Inl (MMALException ''Camera number not found.'')"
      by (rule ctor(1))
  }
  {
    assume a: "0 \<le> n \<and> n < uint (num_cameras info)
               \<and> unat (num_cameras info) \<le> length (cameras info)"
    have "uint (num_cameras info) < 2 ^ 32"
      using uint_lt2p[of "num_cameras info"] by simp
    with a have "\<not> num_cameras info \<le> word_of_int n"
      using le_word_of_int_iff[of n "num_cameras info"] by simp
    moreover have "nat n < unat (num_cameras info)"
      using a by (simp add: nat_less_iff)
    with a have "nat n < length (cameras info)"
      by linarith
    moreover note a
    ultimately have ok: "get_sensor_info hw b (this\<lparr>cameraNum := n\<rparr>) w1 =
       (Inr (this\<lparr>cameraNum := n,
                   cameraName := take (sizeof_cameraName b - 1) (camera_name sensor),
                   width := max_width sensor,
                   height := max_height sensor\<rparr>),
        w1\<lparr>calls := calls w1 @ [create_info, undersized, probe,
                                  mmal_component_destroy camera_info]\<rparr>)"
      unfolding run assms(18) by simp
    then show "fst (get_sensor_info hw b (this\<lparr>cameraNum := n\<rparr>) w1) =
          Inr (this\<lparr>cameraNum := n,
                   cameraName := take (sizeof_cameraName b - 1) (camera_name sensor),
                   width := max_width sensor,
                   height := max_height sensor\<rparr>)"
      by simp
    show "\<forall>this'. fst (MMALCamera_constructor hw b this n w) = Inr this' \<longrightarrow>
              cameraName this' = take (sizeof_cameraName b - 1) (camera_name sensor)
              \<and> (length (camera_name sensor) < sizeof_cameraName b \<longrightarrow>
                    cameraName this' = camera_name sensor)
              \<and> width this' = max_width sensor
              \<and> height this' = max_height sensor
              \<and> (max_width sensor \<noteq> 0 \<and> max_height sensor \<noteq> 0 \<longrightarrow>
                    width this' \<noteq> 0 \<and> height this' \<noteq> 0)"
      using ctor(2)[OF ok] by simp
  }
qed

theorem sensor_selection_by_index_witness:
  "fst (MMALCamera_constructor new_firmware example_build example_camera 1 fresh_world) =
     Inl (MMALException ''Camera number not found.'')
   \<and> fst (MMALCamera_constructor new_firmware example_build example_camera 0 fresh_world) =
     Inr example_camera
   \<and> cameraName example_camera = camera_name imx477
   \<and> width example_camera = max_width imx477
   \<and> height example_camera = max_height imx477
   \<and> width example_camera \<noteq> 0
   \<and> height example_camera \<noteq> 0"
proof -
  have one: "fst (MMALCamera_constructor new_firmware example_build example_camera 1 fresh_world) =
     Inl (MMALException ''Camera number not found.'')"
    using sensor_selection_by_index
      [OF refl refl refl refl _ _ _ _ _ refl refl refl refl _ _ _ refl refl,
        of new_firmware fresh_world 1 example_build example_camera]
    by (simp add: new_firmware_def)
  note zero = constructor_succeeds_example
  have "cameraName example_camera = camera_name imx477 \<and> width example_camera = max_width imx477
     \<and> height example_camera = max_height imx477
     \<and> width example_camera \<noteq> 0 \<and> height example_camera \<noteq> 0"
    using sensor_selection_by_index
      [OF refl refl refl refl _ _ _ _ _ refl refl refl refl _ _ _ refl refl,
        of new_firmware fresh_world 0 example_build example_camera] zero
    by (simp add: new_firmware_def example_build_def imx477_def)
  with one zero show ?thesis by blast
qed

end
